theory Spec2Isabelle
  imports Complex_Main "HOL-Library.Word"
begin

section \<open>JavaScript values\<close>

text \<open>
  What \<open>JSON.parse\<close> returns, and \<open>undefined\<close>. A number is an IEEE double: the
  finite ones are rationals (\<open>-0\<close> is identified with \<open>0\<close>: both are falsy and the same
  \<open>Map\<close> key), and a literal out of range parses to an infinity. A string is a list of
  characters. An object is the list of its own properties in the order \<open>Object.keys\<close>
  enumerates them.
\<close>

datatype jsval =
    JUndefined
  | JNull
  | JBool bool
  | JNum rat
  | JInfinity bool
  | JStr string
  | JArr "jsval list"
  | JObj "(string \<times> jsval) list"

text \<open>The condition of \<open>if (v)\<close>.\<close>

fun truthy :: "jsval \<Rightarrow> bool" where
  "truthy JUndefined = False"
| "truthy JNull = False"
| "truthy (JBool b) = b"
| "truthy (JNum r) = (r \<noteq> 0)"
| "truthy (JInfinity _) = True"
| "truthy (JStr s) = (s \<noteq> [])"
| "truthy (JArr _) = True"
| "truthy (JObj _) = True"

text \<open>\<open>typeof v === 'string'\<close> and \<open>Number.isSafeInteger(v)\<close>.\<close>

fun is_string :: "jsval \<Rightarrow> bool" where
  "is_string (JStr _) = True"
| "is_string _ = False"

fun isSafeInteger :: "jsval \<Rightarrow> bool" where
  "isSafeInteger (JNum r) = (of_int \<lfloor>r\<rfloor> = r \<and> \<bar>r\<bar> \<le> 2 ^ 53 - 1)"
| "isSafeInteger _ = False"

text \<open>The decimal name of an array index, as \<open>Object.keys\<close> gives it.\<close>

fun index_key :: "nat \<Rightarrow> string" where
  "index_key n =
     (if n < 10 then [char_of (48 + n)]
      else index_key (n div 10) @ [char_of (48 + n mod 10)])"

declare index_key.simps [simp del]

text \<open>
  The own enumerable properties of a value: those of an object, the elements of an array
  and the characters of a string under their indices, none for the other primitives.
\<close>

fun own_props :: "jsval \<Rightarrow> (string \<times> jsval) list" where
  "own_props (JObj kvs) = kvs"
| "own_props (JArr xs) = zip (map index_key [0..<length xs]) xs"
| "own_props (JStr s) = zip (map index_key [0..<length s]) (map (\<lambda>c. JStr [c]) s)"
| "own_props _ = []"

datatype message_text =
    StreamNotInitialized jsval  \<comment> \<open>\<open>`Stream ${streamId} is not initialized`\<close>\<close>
  | StreamAlreadyInitialized string  \<comment> \<open>\<open>`Stream ${name} is already initialized`\<close>\<close>
  | StreamPacketStructureError  \<comment> \<open>\<open>'Stream packet structure error'\<close>\<close>
  | RequestTimeout  \<comment> \<open>\<open>'Request timeout'\<close>\<close>

text \<open>
  What is thrown: a \<open>TypeError\<close> of the language, \<open>new Error(text)\<close>,
  \<open>new MetacomError({ message, code })\<close>, and the failures the spec names for the codec
  and the streams.
\<close>

datatype error =
    TypeError
  | Error message_text
  | MetacomError jsval jsval
  | FrameError
  | ProtocolError
  | StreamClosed

text \<open>\<open>Object.keys(v)\<close> throws on \<open>null\<close> and \<open>undefined\<close>.\<close>

definition Object_keys :: "jsval \<Rightarrow> error + string list" where
  "Object_keys v =
     (if v = JNull \<or> v = JUndefined then Inl TypeError else Inr (map fst (own_props v)))"

text \<open>
  \<open>v[k]\<close> where \<open>k\<close> is a string or \<open>undefined\<close> (the property named
  \<open>"undefined"\<close> then), for the properties the dispatcher reads: own properties, and
  \<open>undefined\<close> for a missing one.
\<close>

definition prop_key :: "string option \<Rightarrow> string" where
  "prop_key k = (case k of None \<Rightarrow> ''undefined'' | Some name \<Rightarrow> name)"

definition get_prop :: "jsval \<Rightarrow> string \<Rightarrow> jsval" where
  "get_prop v k = (case map_of (own_props v) k of None \<Rightarrow> JUndefined | Some x \<Rightarrow> x)"

text \<open>\<open>xs[i]\<close> of a destructuring: \<open>undefined\<close> past the end.\<close>

definition nth_opt :: "'a list \<Rightarrow> nat \<Rightarrow> 'a option" where
  "nth_opt xs i = (if i < length xs then Some (xs ! i) else None)"

text \<open>\<open>target.split('/')\<close>.\<close>

fun split_slash :: "string \<Rightarrow> string list" where
  "split_slash [] = [] # []"
| "split_slash (c # cs) =
     (if c = CHR ''/'' then [] # split_slash cs
      else (case split_slash cs of [] \<Rightarrow> [c] # [] | p # ps \<Rightarrow> (c # p) # ps))"

subsection \<open>Map\<close>

text \<open>
  A \<open>Map\<close> keeps its entries in insertion order and compares keys by SameValueZero:
  primitives by value, objects and arrays by identity. Every key looked up here is a
  number of a counter or a value of a packet just parsed, and an object or array just
  parsed is identical to no key stored before: its lookup misses, and setting it adds an
  entry.
\<close>

type_synonym 'v jsmap = "(jsval \<times> 'v) list"

fun is_primitive :: "jsval \<Rightarrow> bool" where
  "is_primitive (JArr _) = False"
| "is_primitive (JObj _) = False"
| "is_primitive _ = True"

definition Map_get :: "'v jsmap \<Rightarrow> jsval \<Rightarrow> 'v option" where
  "Map_get m k = (if is_primitive k then map_of m k else None)"

definition Map_has :: "'v jsmap \<Rightarrow> jsval \<Rightarrow> bool" where
  "Map_has m k = (Map_get m k \<noteq> None)"

definition Map_set :: "'v jsmap \<Rightarrow> jsval \<Rightarrow> 'v \<Rightarrow> 'v jsmap" where
  "Map_set m k v =
     (if Map_has m k then map (\<lambda>(k', v'). if k' = k then (k', v) else (k', v')) m
      else m @ [(k, v)])"

definition Map_delete :: "'v jsmap \<Rightarrow> jsval \<Rightarrow> 'v jsmap" where
  "Map_delete m k = (if is_primitive k then filter (\<lambda>(k', v'). k' \<noteq> k) m else m)"

section \<open>Frame codec\<close>

text \<open>
  A binary frame is a \<open>Uint8Array\<close>: a list of bytes. The test of the codec
  (\<open>Chunk / encode / decode\<close>) calls \<open>Chunk.encode(streamId, dataView)\<close> and
  \<open>Chunk.decode(chunkView)\<close> of \<open>lib/streams.js\<close>.
\<close>

type_synonym byte = "8 word"

text \<open>
  Modelled from the spec: the "fixed-width unsigned field" of the codec of
  \<open>lib/streams.js\<close>, which is not among the sources. The stream id is written into \<open>w\<close>
  bytes, here with the most significant byte first (the spec leaves the order open), and
  read back from them.
\<close>

fun id_bytes :: "nat \<Rightarrow> nat \<Rightarrow> byte list" where
  "id_bytes 0 n = []"
| "id_bytes (Suc k) n = id_bytes k (n div 256) @ [of_nat (n mod 256)]"

definition bytes_id :: "byte list \<Rightarrow> nat" where
  "bytes_id bs = foldl (\<lambda>a b. a * 256 + unat b) 0 bs"

text \<open>
  Modelled from the spec: \<open>Chunk.encode\<close> of \<open>lib/streams.js\<close>, which is not among
  the sources. It "writes streamId into a fixed-width unsigned field [...] followed by
  the payload bytes unmodified". The width \<open>w\<close> of the field, in bytes, is a parameter:
  the spec does not fix it.
\<close>

definition Chunk_encode :: "nat \<Rightarrow> nat \<Rightarrow> byte list \<Rightarrow> byte list" where
  "Chunk_encode w streamId payload = id_bytes w streamId @ payload"

text \<open>
  Modelled from the spec: \<open>Chunk.decode\<close> of \<open>lib/streams.js\<close>, which is not among
  the sources: the "inverse; fails with a FrameError if the frame is shorter than the
  fixed header width".
\<close>

definition Chunk_decode :: "nat \<Rightarrow> byte list \<Rightarrow> error + nat \<times> byte list" where
  "Chunk_decode w frame =
     (if length frame < w then Inl FrameError
      else Inr (bytes_id (take w frame), drop w frame))"

text \<open>A stream id is valid for a field of \<open>w\<close> bytes when the field can hold it.\<close>

definition valid_id :: "nat \<Rightarrow> nat \<Rightarrow> bool" where
  "valid_id w streamId = (streamId < 256 ^ w)"

section \<open>Streams\<close>

text \<open>
  What is handed to \<open>transport.send\<close>: the text \<open>JSON.stringify(packet)\<close> of a control
  packet, given by the packet, the heartbeat \<open>'{}'\<close>, or a binary frame.
\<close>

datatype packet =
    CallPacket nat string jsval  \<comment> \<open>\<open>{ call: callId, [target]: args }\<close>\<close>
  | EventPacket nat string jsval  \<comment> \<open>\<open>{ event: eventId, [target]: data }\<close>\<close>
  | StreamInit nat string nat  \<comment> \<open>\<open>{ stream: streamId, name, size }\<close>\<close>
  | StreamStatus nat string  \<comment> \<open>\<open>{ stream: streamId, status }\<close>\<close>
  | Ping  \<comment> \<open>\<open>'{}'\<close>\<close>

datatype unit_out = Text packet | Binary "byte list"

datatype stream_state = INIT | ACTIVE | ENDED | TERMINATED

text \<open>
  Modelled from the spec: the class \<open>MetaReadable\<close> of \<open>lib/streams.js\<close>, which is not
  among the sources: a stream is "{id, name, declaredSize, state}", and a readable one
  "adds an ordered buffer of pending chunks". The consumers suspended on a stream are not
  modelled.
\<close>

record MetaReadable =
  r_streamId :: jsval
  r_name :: string
  r_size :: rat
  r_state :: stream_state
  r_chunks :: "byte list list"

text \<open>
  Modelled from the spec: the constructor of \<open>MetaReadable\<close>. The states are "INIT \<rightarrow>
  ACTIVE (on first push or explicitly on construction) \<rightarrow> ENDED [...] or TERMINATED"; the
  stream is taken as active from construction.
\<close>

definition new_MetaReadable :: "jsval \<Rightarrow> string \<Rightarrow> rat \<Rightarrow> MetaReadable" where
  "new_MetaReadable streamId name sz =
     \<lparr>r_streamId = streamId, r_name = name, r_size = sz, r_state = ACTIVE, r_chunks = []\<rparr>"

text \<open>
  Modelled from the spec: \<open>MetaReadable.push\<close>, which "appends chunk to the pending
  buffer", and on an ended or terminated stream "signals a ProtocolError to the caller".
\<close>

definition Readable_push :: "MetaReadable \<Rightarrow> byte list \<Rightarrow> error + MetaReadable" where
  "Readable_push rd chunk =
     (if r_state rd = ENDED \<or> r_state rd = TERMINATED then Inl ProtocolError
      else Inr (rd\<lparr>r_state := ACTIVE, r_chunks := r_chunks rd @ [chunk]\<rparr>))"

text \<open>
  Modelled from the spec: \<open>MetaReadable.close\<close>, "ACTIVE \<rightarrow> ENDED", with "no transition
  out of ENDED/TERMINATED".
\<close>

definition Readable_close :: "MetaReadable \<Rightarrow> MetaReadable" where
  "Readable_close rd = (if r_state rd = ACTIVE then rd\<lparr>r_state := ENDED\<rparr> else rd)"

text \<open>Modelled from the spec: \<open>MetaReadable.terminate\<close>, "ACTIVE/INIT \<rightarrow> TERMINATED".\<close>

definition Readable_terminate :: "MetaReadable \<Rightarrow> MetaReadable" where
  "Readable_terminate rd =
     (if r_state rd = ACTIVE \<or> r_state rd = INIT then rd\<lparr>r_state := TERMINATED\<rparr> else rd)"

text \<open>
  Modelled from the spec: the class \<open>MetaWritable\<close> of \<open>lib/streams.js\<close>, which is not
  among the sources. A writable stream has the id, name and size of its \<open>initData\<close> and
  "tracks whether a terminal control packet has already been sent".
\<close>

record MetaWritable =
  w_streamId :: nat
  w_name :: string
  w_size :: nat
  w_finalized :: bool

text \<open>
  A sending capability over a transport state \<open>'t\<close>: \<open>transport.send(unit)\<close> returns or
  throws, and leaves the transport in a new state either way.
\<close>

type_synonym 't sender = "unit_out \<Rightarrow> 't \<Rightarrow> (error + unit) \<times> 't"

text \<open>
  Modelled from the spec: the constructor of \<open>MetaWritable\<close>, which "immediately sends
  {stream: id, name, size} via the connection's send capability".
\<close>

definition new_MetaWritable ::
  "'t sender \<Rightarrow> nat \<Rightarrow> string \<Rightarrow> nat \<Rightarrow> 't \<Rightarrow> (error + MetaWritable) \<times> 't" where
  "new_MetaWritable send streamId name sz t =
     (case send (Text (StreamInit streamId name sz)) t of
        (Inl e, t') \<Rightarrow> (Inl e, t')
      | (Inr _, t') \<Rightarrow>
          (Inr \<lparr>w_streamId = streamId, w_name = name, w_size = sz, w_finalized = False\<rparr>,
           t'))"

text \<open>
  Modelled from the spec: \<open>MetaWritable.write\<close>, which "encodes (id, chunk) via the Frame
  Codec and sends it as a binary unit over the connection" and "returns whether the
  stream will accept further writes (true unless already finalized)"; after \<open>end\<close>, a
  "subsequent write fails with a StreamClosed error". The parameter \<open>w\<close> is the width of
  the codec's id field.
\<close>

definition Writable_write ::
  "nat \<Rightarrow> 't sender \<Rightarrow> MetaWritable \<Rightarrow> byte list \<Rightarrow> 't \<Rightarrow> (error + bool) \<times> 't" where
  "Writable_write w send wr chunk t =
     (if w_finalized wr then (Inl StreamClosed, t)
      else (case send (Binary (Chunk_encode w (w_streamId wr) chunk)) t of
              (Inl e, t') \<Rightarrow> (Inl e, t')
            | (Inr _, t') \<Rightarrow> (Inr True, t')))"

text \<open>
  Modelled from the spec: \<open>MetaWritable.end\<close> and \<open>MetaWritable.terminate\<close>, which send
  \<open>{stream: id, status}\<close> and mark the stream finalized; "a second call is a no-op".
\<close>

definition Writable_finish ::
  "string \<Rightarrow> 't sender \<Rightarrow> MetaWritable \<Rightarrow> 't \<Rightarrow> (error + MetaWritable) \<times> 't" where
  "Writable_finish status send wr t =
     (if w_finalized wr then (Inr wr, t)
      else (case send (Text (StreamStatus (w_streamId wr) status)) t of
              (Inl e, t') \<Rightarrow> (Inl e, t')
            | (Inr _, t') \<Rightarrow> (Inr (wr\<lparr>w_finalized := True\<rparr>), t')))"

definition Writable_end :: "'t sender \<Rightarrow> MetaWritable \<Rightarrow> 't \<Rightarrow> (error + MetaWritable) \<times> 't" where
  "Writable_end = Writable_finish ''end''"

definition Writable_terminate ::
  "'t sender \<Rightarrow> MetaWritable \<Rightarrow> 't \<Rightarrow> (error + MetaWritable) \<times> 't" where
  "Writable_terminate = Writable_finish ''terminate''"

text \<open>
  The transport of the tests, \<open>{ send: (packet) => writeBuffer.push(packet) }\<close>: its state
  is the write buffer.
\<close>

definition buffer_send :: "unit_out list sender" where
  "buffer_send u writeBuffer = (Inr (), writeBuffer @ [u])"

section \<open>The connection\<close>

datatype transport = WebsocketTransport | HttpTransport

text \<open>The callbacks given to \<open>setTimeout\<close>: of a call, and of the close listener.\<close>

datatype timer = CallTimeout nat | Reconnect

text \<open>The two \<open>await\<close>s at which a call can be suspended before it is registered.\<close>

datatype suspended = AwaitOpening | AwaitOpen

text \<open>
  What the connection does to the world outside its fields, in order: it settles the
  promise of a call, emits to an interface or to its own listeners, logs, and uses the
  socket or \<open>fetch\<close>. \<open>ReadableClosed\<close> and \<open>ReadableTerminated\<close> carry the stream as
  \<open>close()\<close> and \<open>terminate()\<close> leave it.
\<close>

datatype effect =
    Resolve nat jsval
  | Reject nat error
  | Emit string "string option" jsval
  | EmitOpen
  | EmitClose
  | EmitError
  | ConsoleError message_text
  | ConsoleWarn message_text
  | NewWebSocket nat
  | SocketSend nat unit_out
  | SocketClose nat
  | OpeningResolved nat
  | Fetch unit_out
  | ReadableClosed MetaReadable
  | ReadableTerminated MetaReadable

text \<open>
  The fields of \<open>Metacom\<close>, and what surrounds one connection: whether it is in the
  module's set \<open>connections\<close>, the timeouts pending with the time at which each is due,
  the number of ping intervals installed and of sockets constructed, the calls suspended
  at an \<open>await\<close>, and the effects so far. A socket and the promise \<open>opening\<close> made for it
  are named by the socket's number; the entry of \<open>calls\<close> holds \<open>[resolve, reject]\<close> of
  the promise of a call, named by the call's id. \<open>api\<close> holds, under the name of each
  interface loaded, the names of its remote methods: \<open>load\<close> assigns a call of each over
  the property of that name of the interface, which is an event emitter.
  \<open>connected'\<close> is the field \<open>connected\<close>. The counters are
  numbers that the code only increments by one from 0 (exact below \<open>2 ^ 53\<close>, which no
  connection reaches) and the times are read from the clock: natural numbers.
\<close>

record metacom =
  kind :: transport
  url :: string
  socket :: "nat option"
  api :: "(string \<times> string list) list"
  callId :: nat
  calls :: "nat jsmap"
  streams :: "MetaReadable jsmap"
  streamId :: nat
  eventId :: nat
  active :: bool
  connected' :: bool
  "opening" :: "nat option"
  lastActivity :: nat
  callTimeout :: nat
  pingInterval :: nat
  reconnectTimeout :: nat
  connections :: bool
  timers :: "(nat \<times> timer) list"
  intervals :: nat
  sockets :: nat
  awaiting :: "(nat \<times> suspended \<times> string \<times> jsval) list"
  trace :: "effect list"

definition CALL_TIMEOUT :: nat where
  "CALL_TIMEOUT = 7 * 1000"

definition PING_INTERVAL :: nat where
  "PING_INTERVAL = 60 * 1000"

definition RECONNECT_TIMEOUT :: nat where
  "RECONNECT_TIMEOUT = 2 * 1000"

definition log :: "effect \<Rightarrow> metacom \<Rightarrow> metacom" where
  "log e s = s\<lparr>trace := trace s @ [e]\<rparr>"

subsection \<open>The transports\<close>

text \<open>
  What the promise that \<open>open()\<close> returns follows: the connect in flight for a socket,
  or nothing (it is resolved).
\<close>

datatype opened = InFlight nat | Resolved

text \<open>
  \<open>open\<close>, \<open>close\<close> and \<open>send\<close> of \<open>WebsocketTransport\<close>. \<open>new WebSocket(this.url)\<close> is
  taken to return a socket (the url is one that it accepts); the listeners that \<open>open\<close>
  adds to the socket are \<open>message\<close> and \<open>binary\<close> below, \<open>on_close\<close>, \<open>on_error\<close> and
  \<open>on_open\<close>, and the callback of its interval is \<open>ping_cb\<close>.
\<close>

definition ws_open :: "metacom \<Rightarrow> opened \<times> metacom" where
  "ws_open s =
     (case opening s of
        Some p \<Rightarrow> (InFlight p, s)
      | None \<Rightarrow>
          if connected' s then (Resolved, s)
          else
            (let k = sockets s in
             (InFlight k,
              log (NewWebSocket k)
                (s\<lparr>sockets := k + 1, active := True, socket := Some k, connections := True,
                   intervals := intervals s + 1, opening := Some k\<rparr>))))"

definition ws_close :: "metacom \<Rightarrow> metacom" where
  "ws_close s =
     (let s1 = s\<lparr>active := False, connections := False\<rparr>
      in case socket s1 of
           None \<Rightarrow> s1
         | Some k \<Rightarrow> (log (SocketClose k) s1)\<lparr>socket := None\<rparr>)"

definition ws_send :: "nat \<Rightarrow> metacom sender" where
  "ws_send now u s =
     (if \<not> connected' s then (Inr (), s)
      else
        (let s1 = s\<lparr>lastActivity := now\<rparr>
         in case socket s1 of
              None \<Rightarrow> (Inl TypeError, s1)
            | Some k \<Rightarrow> (Inr (), log (SocketSend k u) s1)))"

text \<open>
  \<open>open\<close>, \<open>close\<close> and \<open>send\<close> of \<open>HttpTransport\<close>. The reply to the \<open>fetch\<close> of \<open>send\<close>
  reaches \<open>message\<close> later, as an event of its own.
\<close>

definition http_open :: "metacom \<Rightarrow> opened \<times> metacom" where
  "http_open s = (Resolved, log EmitOpen (s\<lparr>active := True, connected' := True\<rparr>))"

definition http_close :: "metacom \<Rightarrow> metacom" where
  "http_close s = s\<lparr>active := False, connected' := False\<rparr>"

definition http_send :: "nat \<Rightarrow> metacom sender" where
  "http_send now u s = (Inr (), log (Fetch u) (s\<lparr>lastActivity := now\<rparr>))"

text \<open>\<open>this.open()\<close>, \<open>this.close()\<close> and \<open>this.send(data)\<close>: the method of the subclass.\<close>

definition this_open :: "metacom \<Rightarrow> opened \<times> metacom" where
  "this_open s = (case kind s of WebsocketTransport \<Rightarrow> ws_open s | HttpTransport \<Rightarrow> http_open s)"

definition this_close :: "metacom \<Rightarrow> metacom" where
  "this_close s =
     (case kind s of WebsocketTransport \<Rightarrow> ws_close s | HttpTransport \<Rightarrow> http_close s)"

definition this_send :: "nat \<Rightarrow> metacom sender" where
  "this_send now u s =
     (case kind s of WebsocketTransport \<Rightarrow> ws_send now u s | HttpTransport \<Rightarrow> http_send now u s)"

subsection \<open>Construction\<close>

record options =
  opt_callTimeout :: "nat option"
  opt_pingInterval :: "nat option"
  opt_reconnectTimeout :: "nat option"

text \<open>\<open>options.x || DEFAULT\<close>: the default when the option is missing or zero.\<close>

definition or_default :: "nat option \<Rightarrow> nat \<Rightarrow> nat" where
  "or_default v d = (case v of None \<Rightarrow> d | Some n \<Rightarrow> if n = 0 then d else n)"

text \<open>
  The constructor of \<open>Metacom\<close> at the time \<open>now\<close>: it sets the fields, then calls
  \<open>this.open()\<close>. \<open>Metacom.create\<close> chooses the transport by \<open>url.startsWith('ws')\<close>.
\<close>

definition Metacom_fields :: "transport \<Rightarrow> string \<Rightarrow> options \<Rightarrow> nat \<Rightarrow> metacom" where
  "Metacom_fields k u opts now =
     \<lparr>kind = k, url = u, socket = None, api = [], callId = 0, calls = [], streams = [],
      streamId = 0, eventId = 0, active = False, connected' = False, opening = None,
      lastActivity = now,
      callTimeout = or_default (opt_callTimeout opts) CALL_TIMEOUT,
      pingInterval = or_default (opt_pingInterval opts) PING_INTERVAL,
      reconnectTimeout = or_default (opt_reconnectTimeout opts) RECONNECT_TIMEOUT,
      connections = False, timers = [], intervals = 0, sockets = 0, awaiting = [],
      trace = []\<rparr>"

definition new_Metacom :: "transport \<Rightarrow> string \<Rightarrow> options \<Rightarrow> nat \<Rightarrow> metacom" where
  "new_Metacom k u opts now = snd (this_open (Metacom_fields k u opts now))"

definition create :: "string \<Rightarrow> options \<Rightarrow> nat \<Rightarrow> metacom" where
  "create u opts now =
     new_Metacom (if take 2 u = ''ws'' then WebsocketTransport else HttpTransport) u opts now"

subsection \<open>Streams of the connection\<close>

text \<open>
  \<open>getStream(streamId)\<close> and \<open>createStream(name, size)\<close>; the latter constructs the
  writable stream over \<open>this.send\<close>.
\<close>

definition getStream :: "metacom \<Rightarrow> jsval \<Rightarrow> error + MetaReadable" where
  "getStream s sid =
     (case Map_get (streams s) sid of
        Some stream \<Rightarrow> Inr stream
      | None \<Rightarrow> Inl (Error (StreamNotInitialized sid)))"

definition createStream ::
  "nat \<Rightarrow> string \<Rightarrow> nat \<Rightarrow> metacom \<Rightarrow> (error + MetaWritable) \<times> metacom" where
  "createStream now name sz s =
     (let sid = streamId s + 1; s1 = s\<lparr>streamId := sid\<rparr>
      in new_MetaWritable (this_send now) sid name sz s1)"

subsection \<open>Calls\<close>

text \<open>
  The function that \<open>scaffold(iname, ver)(methodName)\<close> returns, called with \<open>args\<close>;
  \<open>target\<close> is \<open>interfaceName + '/' + methodName\<close>. \<open>call_register\<close> is the executor of
  its promise: what it throws rejects the promise. The call takes its id, then is
  suspended at \<open>await this.opening\<close> when a connect is in flight and at
  \<open>await this.open()\<close> when the connection is not connected; \<open>call_resume\<close> continues the
  \<open>i\<close>-th suspended call.
\<close>

definition call_register :: "nat \<Rightarrow> nat \<Rightarrow> string \<Rightarrow> jsval \<Rightarrow> metacom \<Rightarrow> metacom" where
  "call_register now cid target args s =
     (let s1 = s\<lparr>timers := timers s @ [(now + callTimeout s, CallTimeout cid)]\<rparr>;
          s2 = s1\<lparr>calls := Map_set (calls s1) (JNum (of_nat cid)) cid\<rparr>
      in case this_send now (Text (CallPacket cid target args)) s2 of
           (Inl e, s3) \<Rightarrow> log (Reject cid e) s3
         | (Inr _, s3) \<Rightarrow> s3)"

definition call_connect :: "nat \<Rightarrow> nat \<Rightarrow> string \<Rightarrow> jsval \<Rightarrow> metacom \<Rightarrow> metacom" where
  "call_connect now cid target args s =
     (if \<not> connected' s then
        (let s1 = snd (this_open s)
         in s1\<lparr>awaiting := awaiting s1 @ [(cid, AwaitOpen, target, args)]\<rparr>)
      else call_register now cid target args s)"

definition call :: "nat \<Rightarrow> string \<Rightarrow> jsval \<Rightarrow> metacom \<Rightarrow> nat \<times> metacom" where
  "call now target args s =
     (let cid = callId s + 1; s1 = s\<lparr>callId := cid\<rparr>
      in (cid,
          if opening s1 \<noteq> None
          then s1\<lparr>awaiting := awaiting s1 @ [(cid, AwaitOpening, target, args)]\<rparr>
          else call_connect now cid target args s1))"

definition remove_nth :: "nat \<Rightarrow> 'a list \<Rightarrow> 'a list" where
  "remove_nth i xs = take i xs @ drop (Suc i) xs"

definition call_resume :: "nat \<Rightarrow> nat \<Rightarrow> metacom \<Rightarrow> metacom" where
  "call_resume now i s =
     (if i < length (awaiting s) then
        (case awaiting s ! i of
           (cid, point, target, args) \<Rightarrow>
             (let s1 = s\<lparr>awaiting := remove_nth i (awaiting s)\<rparr>
              in case point of
                   AwaitOpening \<Rightarrow> call_connect now cid target args s1
                 | AwaitOpen \<Rightarrow> call_register now cid target args s1))
      else s)"

subsection \<open>The dispatcher\<close>

text \<open>
  The text handed to \<open>message\<close>: the literal \<open>'{}'\<close>, a text on which \<open>JSON.parse\<close>
  throws, or a text that parses to a value (the text \<open>'{ }'\<close> parses to the empty object
  and is not the heartbeat).
\<close>

datatype inbound = Heartbeat | Unparsable | Parsed jsval

text \<open>The branch \<open>callType === 'callback'\<close>.\<close>

definition on_callback :: "jsval \<Rightarrow> jsval \<Rightarrow> jsval \<Rightarrow> metacom \<Rightarrow> (error + unit) \<times> metacom" where
  "on_callback pkt cid args s =
     (case Map_get (calls s) cid of
        None \<Rightarrow> (Inr (), s)
      | Some promised \<Rightarrow>
          (let s1 = s\<lparr>calls := Map_delete (calls s) cid\<rparr>; err = get_prop pkt ''error''
           in if truthy err
              then (Inr (),
                    log (Reject promised
                          (MetacomError (get_prop err ''message'') (get_prop err ''code''))) s1)
              else (Inr (), log (Resolve promised args) s1)))"

text \<open>
  The branch \<open>callType === 'event'\<close>. \<open>target.split\<close> throws when there is no second
  key, and \<open>metacomInterface.emit\<close> throws when \<open>this.api\<close> has no interface of that
  name. When the interface has a remote method named \<open>emit\<close>, \<open>load\<close> has put a call of
  it in the place of the emitter's method: \<open>metacomInterface.emit(eventName, args)\<close> is then
  the function of \<open>scaffold(interfaceName)('emit')\<close> called with the event name as its
  arguments (with \<open>{}\<close> when there is none), which runs to its first \<open>await\<close> and whose
  promise nothing awaits.

  Modelled from the spec: otherwise \<open>emit\<close> is the one of \<open>EventEmitter\<close> in \<open>events.js\<close>,
  which is not among the sources; the event is "routed to the named interface's event
  sink", recorded here as the effect \<open>Emit\<close>. The listeners that it runs are not part of
  the connection.
\<close>

definition on_event ::
  "nat \<Rightarrow> string option \<Rightarrow> jsval \<Rightarrow> metacom \<Rightarrow> (error + unit) \<times> metacom" where
  "on_event now target args s =
     (case target of
        None \<Rightarrow> (Inl TypeError, s)
      | Some t \<Rightarrow>
          (let parts = split_slash t;
               interfaceName = prop_key (nth_opt parts 0);
               eventName = nth_opt parts 1
           in case map_of (api s) interfaceName of
                None \<Rightarrow> (Inl TypeError, s)
              | Some methodNames \<Rightarrow>
                  if ''emit'' \<in> set methodNames
                  then (Inr (),
                        snd (call now (interfaceName @ ''/'' @ ''emit'')
                               (case eventName of None \<Rightarrow> JObj [] | Some e \<Rightarrow> JStr e) s))
                  else (Inr (), log (Emit interfaceName eventName args) s)))"

text \<open>
  The branch \<open>callType === 'stream'\<close>. \<open>stream_init\<close> is its first condition,
  \<open>name && typeof name === 'string' && Number.isSafeInteger(size)\<close>, under which
  \<open>name\<close> is a string and \<open>size\<close> a number.
\<close>

fun str_of :: "jsval \<Rightarrow> string" where
  "str_of (JStr n) = n"
| "str_of _ = []"

fun num_of :: "jsval \<Rightarrow> rat" where
  "num_of (JNum r) = r"
| "num_of _ = 0"

definition stream_init :: "jsval \<Rightarrow> bool" where
  "stream_init pkt =
     (truthy (get_prop pkt ''name'') \<and> is_string (get_prop pkt ''name'') \<and>
      isSafeInteger (get_prop pkt ''size''))"

definition on_stream :: "jsval \<Rightarrow> metacom \<Rightarrow> (error + unit) \<times> metacom" where
  "on_stream pkt s =
     (let sid = get_prop pkt ''stream'';
          name = get_prop pkt ''name'';
          sz = get_prop pkt ''size'';
          status = get_prop pkt ''status'';
          stream = Map_get (streams s) sid
      in if stream_init pkt then
           (case stream of
              Some _ \<Rightarrow>
                (Inr (), log (ConsoleError (StreamAlreadyInitialized (str_of name))) s)
            | None \<Rightarrow>
                (Inr (),
                 s\<lparr>streams :=
                     Map_set (streams s) sid
                       (new_MetaReadable sid (str_of name) (num_of sz))\<rparr>))
         else
           (case stream of
              None \<Rightarrow> (Inr (), log (ConsoleError (StreamNotInitialized sid)) s)
            | Some rd \<Rightarrow>
                if status = JStr ''end'' then
                  (Inr (),
                   (log (ReadableClosed (Readable_close rd)) s)
                     \<lparr>streams := Map_delete (streams s) sid\<rparr>)
                else if status = JStr ''terminate'' then
                  (Inr (),
                   (log (ReadableTerminated (Readable_terminate rd)) s)
                     \<lparr>streams := Map_delete (streams s) sid\<rparr>)
                else (Inr (), log (ConsoleError StreamPacketStructureError) s)))"

text \<open>
  \<open>message(data)\<close> at the time \<open>now\<close>. The result is how the promise of the \<open>async\<close>
  function settles (\<open>Inl\<close>: it rejects with what was thrown), with the connection as the
  call leaves it.
\<close>

definition dispatch :: "nat \<Rightarrow> jsval \<Rightarrow> metacom \<Rightarrow> (error + unit) \<times> metacom" where
  "dispatch now pkt s =
     (case Object_keys pkt of
        Inl e \<Rightarrow> (Inl e, s)
      | Inr keys \<Rightarrow>
          (let callType = nth_opt keys 0;
               target = nth_opt keys 1;
               cid = get_prop pkt (prop_key callType);
               args = get_prop pkt (prop_key target)
           in if truthy cid then
                if callType = Some ''callback'' then on_callback pkt cid args s
                else if callType = Some ''event'' then on_event now target args s
                else if callType = Some ''stream'' then on_stream pkt s
                else (Inr (), s)
              else (Inr (), s)))"

definition message :: "nat \<Rightarrow> inbound \<Rightarrow> metacom \<Rightarrow> (error + unit) \<times> metacom" where
  "message now data s =
     (case data of
        Heartbeat \<Rightarrow> (Inr (), s)
      | Unparsable \<Rightarrow> (Inr (), s\<lparr>lastActivity := now\<rparr>)
      | Parsed pkt \<Rightarrow> dispatch now pkt (s\<lparr>lastActivity := now\<rparr>))"

text \<open>
  \<open>binary(blob)\<close> on the bytes of the blob; \<open>w\<close> is the width of the codec's id field.
  \<open>stream.push\<close> changes the stream that the map holds.
\<close>

definition binary :: "nat \<Rightarrow> byte list \<Rightarrow> metacom \<Rightarrow> (error + unit) \<times> metacom" where
  "binary w byteView s =
     (case Chunk_decode w byteView of
        Inl e \<Rightarrow> (Inl e, s)
      | Inr (sid, payload) \<Rightarrow>
          (case Map_get (streams s) (JNum (of_nat sid)) of
             Some stream \<Rightarrow>
               (case Readable_push stream payload of
                  Inl e \<Rightarrow> (Inl e, s)
                | Inr stream' \<Rightarrow>
                    (Inr (), s\<lparr>streams := Map_set (streams s) (JNum (of_nat sid)) stream'\<rparr>))
           | None \<Rightarrow>
               (Inr (), log (ConsoleWarn (StreamNotInitialized (JNum (of_nat sid)))) s)))"

subsection \<open>Interfaces\<close>

text \<open>
  The listener that \<open>load\<close> puts on \<open>'*'\<close> of an interface: it sends the event to the
  server under the next event id.
\<close>

definition forward_event ::
  "nat \<Rightarrow> string \<Rightarrow> string \<Rightarrow> jsval \<Rightarrow> metacom \<Rightarrow> (error + unit) \<times> metacom" where
  "forward_event now interfaceName eventName data s =
     (let eid = eventId s + 1; s1 = s\<lparr>eventId := eid\<rparr>
      in this_send now (Text (EventPacket eid (interfaceName @ ''/'' @ eventName) data)) s1)"

text \<open>
  The body of the loop of \<open>load\<close> for an interface that the introspection has, with the
  names of its methods: each method of the interface becomes a call, then
  \<open>methods.on('*', listener)\<close> adds the listener, then \<open>this.api[interfaceName]\<close> is
  assigned. When the interface has a remote method named \<open>on\<close>, \<open>methods.on\<close> is the call
  of it, with \<open>'*'\<close> as its arguments.
\<close>

definition load_interface :: "nat \<Rightarrow> string \<Rightarrow> string list \<Rightarrow> metacom \<Rightarrow> metacom" where
  "load_interface now interfaceName methodNames s =
     (let s1 = (if ''on'' \<in> set methodNames
                then snd (call now (interfaceName @ ''/'' @ ''on'') (JStr ''*'') s)
                else s)
      in s1\<lparr>api := (interfaceName, methodNames) #
                     filter (\<lambda>e. fst e \<noteq> interfaceName) (api s1)\<rparr>)"

subsection \<open>Timers and listeners\<close>

text \<open>
  The callback that \<open>scaffold\<close> gives to \<open>setTimeout\<close> for the call \<open>cid\<close>, and the one
  that the close listener gives to it.
\<close>

definition timeout_cb :: "nat \<Rightarrow> metacom \<Rightarrow> metacom" where
  "timeout_cb cid s =
     (if Map_has (calls s) (JNum (of_nat cid))
      then log (Reject cid (Error RequestTimeout))
             (s\<lparr>calls := Map_delete (calls s) (JNum (of_nat cid))\<rparr>)
      else s)"

definition reconnect_cb :: "metacom \<Rightarrow> metacom" where
  "reconnect_cb s = (if active s then snd (this_open s) else s)"

text \<open>The \<open>i\<close>-th pending timeout fires, once it is due.\<close>

definition fire_timer :: "nat \<Rightarrow> nat \<Rightarrow> metacom \<Rightarrow> metacom" where
  "fire_timer now i s =
     (if i < length (timers s) \<and> fst (timers s ! i) \<le> now then
        (let s1 = s\<lparr>timers := remove_nth i (timers s)\<rparr>
         in case snd (timers s ! i) of
              CallTimeout cid \<Rightarrow> timeout_cb cid s1
            | Reconnect \<Rightarrow> reconnect_cb s1)
      else s)"

text \<open>
  The listeners of \<open>'open'\<close>, \<open>'close'\<close> and \<open>'error'\<close> of the socket number \<open>k\<close>, and the
  callback of \<open>setInterval\<close>. In the latter the time since the last activity is
  \<open>now - lastActivity\<close>, which exceeds no interval when the clock has gone back.
\<close>

definition on_open :: "nat \<Rightarrow> metacom \<Rightarrow> metacom" where
  "on_open k s = log (OpeningResolved k) (log EmitOpen (s\<lparr>opening := None, connected' := True\<rparr>))"

definition on_close :: "nat \<Rightarrow> metacom \<Rightarrow> metacom" where
  "on_close now s =
     (let s1 = log EmitClose (s\<lparr>opening := None, connected' := False\<rparr>)
      in s1\<lparr>timers := timers s1 @ [(now + reconnectTimeout s1, Reconnect)]\<rparr>)"

definition on_error :: "nat \<Rightarrow> metacom \<Rightarrow> metacom" where
  "on_error k s = log (SocketClose k) (log EmitError s)"

definition ping_cb :: "nat \<Rightarrow> metacom \<Rightarrow> (error + unit) \<times> metacom" where
  "ping_cb now s =
     (if active s then
        if now - lastActivity s > pingInterval s then this_send now (Text Ping) s
        else (Inr (), s)
      else (Inr (), s))"

text \<open>The listener of \<open>'online'\<close> on the window, for this connection.\<close>

definition on_online :: "metacom \<Rightarrow> metacom" where
  "on_online s =
     (if connections s then (if \<not> connected' s then snd (this_open s) else s) else s)"

subsection \<open>Runs\<close>

text \<open>
  What happens to a connection without a call from its user: a text or a binary message
  arrives, a socket that was constructed opens, closes or fails, a timeout or a ping
  interval fires, the window comes online. What a handler throws is dropped: nothing
  awaits \<open>message\<close> or \<open>binary\<close>, and a callback has no caller.

  A message reaches a socket connection through the \<open>'message'\<close> listener of its socket,
  and a socket delivers none once \<open>close()\<close> was called on it: after \<open>this.close()\<close>, which
  closes the socket and sets \<open>this.socket\<close> to \<open>null\<close>, none arrives until the next
  \<open>open()\<close>. A text reaches an HTTP connection as the reply to a \<open>fetch\<close>; a binary
  message does not reach it.
\<close>

definition delivers_text :: "metacom \<Rightarrow> bool" where
  "delivers_text s =
     (case kind s of WebsocketTransport \<Rightarrow> socket s \<noteq> None | HttpTransport \<Rightarrow> True)"

definition delivers_binary :: "metacom \<Rightarrow> bool" where
  "delivers_binary s =
     (case kind s of WebsocketTransport \<Rightarrow> socket s \<noteq> None | HttpTransport \<Rightarrow> False)"

datatype event =
    Message nat inbound
  | BinaryMessage "byte list"
  | SocketOpened nat
  | SocketClosed nat
  | SocketFailed nat
  | TimerFired nat nat
  | PingTick nat
  | Online

definition step :: "nat \<Rightarrow> event \<Rightarrow> metacom \<Rightarrow> metacom" where
  "step w ev s =
     (case ev of
        Message now data \<Rightarrow> (if delivers_text s then snd (message now data s) else s)
      | BinaryMessage byteView \<Rightarrow>
          (if delivers_binary s then snd (binary w byteView s) else s)
      | SocketOpened k \<Rightarrow> (if k < sockets s then on_open k s else s)
      | SocketClosed now \<Rightarrow> (if 0 < sockets s then on_close now s else s)
      | SocketFailed k \<Rightarrow> (if k < sockets s then on_error k s else s)
      | TimerFired now i \<Rightarrow> fire_timer now i s
      | PingTick now \<Rightarrow> (if 0 < intervals s then snd (ping_cb now s) else s)
      | Online \<Rightarrow> on_online s)"

text \<open>The calls of the user, and the continuation of a call suspended at an \<open>await\<close>.\<close>

datatype command =
    Open
  | Close
  | Call nat string jsval
  | CallResumed nat nat
  | CreateStream nat string nat
  | Loaded nat string "string list"
  | EmitEvent nat string string jsval

definition perform :: "command \<Rightarrow> metacom \<Rightarrow> metacom" where
  "perform c s =
     (case c of
        Open \<Rightarrow> snd (this_open s)
      | Close \<Rightarrow> this_close s
      | Call now target args \<Rightarrow> snd (call now target args s)
      | CallResumed now i \<Rightarrow> call_resume now i s
      | CreateStream now name sz \<Rightarrow> snd (createStream now name sz s)
      | Loaded now interfaceName methodNames \<Rightarrow> load_interface now interfaceName methodNames s
      | EmitEvent now interfaceName eventName data \<Rightarrow>
          snd (forward_event now interfaceName eventName data s))"

datatype action = Happens event | User command

fun run :: "nat \<Rightarrow> action list \<Rightarrow> metacom \<Rightarrow> metacom" where
  "run w [] s = s"
| "run w (Happens ev # as) s = run w as (step w ev s)"
| "run w (User c # as) s = run w as (perform c s)"

subsection \<open>Invariants\<close>



text \<open>
  An entry of \<open>streams\<close> as the dispatcher makes it from a packet that initialises a
  stream, and as \<open>push\<close> leaves it: the stream carries the key as its id, a name and a
  safe integer as its size, and it is active.
\<close>

definition from_init :: "jsval \<times> MetaReadable \<Rightarrow> bool" where
  "from_init e =
     (r_streamId (snd e) = fst e \<and> r_state (snd e) = ACTIVE \<and> r_name (snd e) \<noteq> [] \<and>
      isSafeInteger (JNum (r_size (snd e))))"



text \<open>
  What the life cycle of the connection consists of, and the calls of \<open>socket.close()\<close>
  so far.
\<close>

definition lifecycle :: "metacom \<Rightarrow> bool \<times> bool \<times> nat option \<times> nat option \<times> bool \<times> nat" where
  "lifecycle s = (active s, connected' s, opening s, socket s, connections s, sockets s)"

definition socket_closes :: "metacom \<Rightarrow> effect list" where
  "socket_closes s = filter (\<lambda>e. case e of SocketClose k \<Rightarrow> True | _ \<Rightarrow> False) (trace s)"

section \<open>Example connections\<close>

text \<open>
  A socket connection constructed at time 0 with a call timeout of 50 ms, before and
  after its socket opens; the same after a call at time 10, and after a packet at time 1
  that initialises the stream 1; and a connection over HTTP.
\<close>

definition opts0 :: options where
  "opts0 = \<lparr>opt_callTimeout = Some 50, opt_pingInterval = None, opt_reconnectTimeout = None\<rparr>"

definition ws0 :: metacom where
  "ws0 = new_Metacom WebsocketTransport ''ws://host'' opts0 0"

definition ws1 :: metacom where
  "ws1 = step 4 (SocketOpened 0) ws0"

definition called1 :: metacom where
  "called1 = snd (call 10 ''a/b'' JNull ws1)"

definition inbound1 :: metacom where
  "inbound1 =
     snd (message 1 (Parsed (JObj [(''stream'', JNum 1), (''name'', JStr ''f''),
            (''size'', JNum 3)])) ws1)"

definition http0 :: metacom where
  "http0 = new_Metacom HttpTransport ''http://host'' opts0 0"


section \<open>Properties of the frame codec\<close>

lemma length_id_bytes: "length (id_bytes w n) = w"
  by (induction w arbitrary: n) auto

lemma bytes_id_snoc: "bytes_id (bs @ [b]) = bytes_id bs * 256 + unat b"
  by (simp add: bytes_id_def)

lemma unat_byte_of_mod: "unat (of_nat (n mod 256) :: byte) = n mod 256"
  by (simp add: unat_of_nat)

lemma bytes_id_id_bytes: "n < 256 ^ w \<Longrightarrow> bytes_id (id_bytes w n) = n"
proof (induction w arbitrary: n)
  case 0
  then show ?case by (simp add: bytes_id_def)
next
  case (Suc w)
  from Suc.prems have "n div 256 < 256 ^ w"
    by (simp add: less_mult_imp_div_less mult.commute)
  then have "bytes_id (id_bytes w (n div 256)) = n div 256"
    by (rule Suc.IH)
  then show ?case
    by (simp add: bytes_id_snoc unat_byte_of_mod)
qed

lemma decode_encode:
  "n < 256 ^ w \<Longrightarrow> Chunk_decode w (Chunk_encode w n payload) = Inr (n, payload)"
  by (simp add: Chunk_decode_def Chunk_encode_def length_id_bytes bytes_id_id_bytes)

text \<open>
  C1. Round trip of the frame codec: for every stream id that fits the id field and every
  payload, the empty one included, decoding the encoded frame gives back the id and the
  payload.
\<close>

theorem Chunk_round_trip:
  "valid_id w sid \<Longrightarrow>
     Chunk_decode w (Chunk_encode w sid payload) = Inr (sid, payload)"
  by (simp add: valid_id_def decode_encode)

theorem Chunk_round_trip_witness:
  "valid_id 4 258 \<and>
   Chunk_decode 4 (Chunk_encode 4 258 []) = Inr (258, []) \<and>
   Chunk_decode 4 (Chunk_encode 4 258 [7, 255]) = Inr (258, [7, 255])"
proof -
  have v: "valid_id 4 258" by (simp add: valid_id_def)
  show ?thesis
    using v Chunk_round_trip [OF v] by blast
qed

section \<open>Properties of Map\<close>

lemma Map_get_delete: "Map_get (Map_delete m k) k = None"
  by (induction m) (auto simp: Map_get_def Map_delete_def)

lemma Map_get_delete_other: "k' \<noteq> k \<Longrightarrow> Map_get (Map_delete m k) k' = Map_get m k'"
  by (induction m) (auto simp: Map_get_def Map_delete_def)


lemma Map_get_set_new:
  "Map_get m k = None \<Longrightarrow> Map_set m k v = m @ [(k, v)]"
  by (simp add: Map_set_def Map_has_def)

lemma Map_get_append_new:
  "is_primitive k \<Longrightarrow> Map_get m k = None \<Longrightarrow> Map_get (m @ [(k, v)]) k = Some v"
  by (simp add: Map_get_def map_add_def)

lemma set_Map_delete: "set (Map_delete m k) \<subseteq> set m"
  by (auto simp add: Map_delete_def)

lemma keys_Map_delete: "fst ` set (Map_delete m k) \<subseteq> fst ` set m"
  by (auto simp: Map_delete_def)

lemma keys_Map_set: "fst ` set (Map_set m k v) \<subseteq> insert k (fst ` set m)"
  by (auto simp: Map_set_def split: if_splits)




lemma list_all_Map_delete: "list_all P m \<Longrightarrow> list_all P (Map_delete m k)"
  by (simp add: Map_delete_def list_all_iff)

lemma list_all_Map_set: "list_all P m \<Longrightarrow> P (k, v) \<Longrightarrow> list_all P (Map_set m k v)"
  by (auto simp add: Map_set_def list_all_iff)

lemma Map_get_in: "Map_get m k = Some v \<Longrightarrow> (k, v) \<in> set m"
  by (simp add: Map_get_def map_of_SomeD split: if_splits)

lemma remove_nth_last: "remove_nth (length xs) (xs @ [x]) = xs"
  by (simp add: remove_nth_def)


section \<open>What the operations leave alone\<close>

lemma this_send_frame:
  "calls (snd (this_send now u s)) = calls s"
  "callId (snd (this_send now u s)) = callId s"
  "awaiting (snd (this_send now u s)) = awaiting s"
  "streams (snd (this_send now u s)) = streams s"
  "streamId (snd (this_send now u s)) = streamId s"
  "eventId (snd (this_send now u s)) = eventId s"
  "timers (snd (this_send now u s)) = timers s"
  "active (snd (this_send now u s)) = active s"
  "connections (snd (this_send now u s)) = connections s"
  "sockets (snd (this_send now u s)) = sockets s"
  "kind (snd (this_send now u s)) = kind s"
  by (simp_all add: this_send_def ws_send_def http_send_def log_def Let_def
      split: transport.splits option.splits)

lemma this_open_frame:
  "calls (snd (this_open s)) = calls s"
  "callId (snd (this_open s)) = callId s"
  "awaiting (snd (this_open s)) = awaiting s"
  "streams (snd (this_open s)) = streams s"
  "streamId (snd (this_open s)) = streamId s"
  "eventId (snd (this_open s)) = eventId s"
  "timers (snd (this_open s)) = timers s"
  "kind (snd (this_open s)) = kind s"
  by (simp_all add: this_open_def ws_open_def http_open_def log_def Let_def
      split: transport.splits option.splits)

lemma this_close_frame:
  "calls (this_close s) = calls s"
  "callId (this_close s) = callId s"
  "awaiting (this_close s) = awaiting s"
  "streams (this_close s) = streams s"
  "streamId (this_close s) = streamId s"
  "eventId (this_close s) = eventId s"
  "timers (this_close s) = timers s"
  "kind (this_close s) = kind s"
  "sockets (this_close s) = sockets s"
  "active (this_close s) = False"
  by (simp_all add: this_close_def ws_close_def http_close_def log_def Let_def
      split: transport.splits option.splits)

lemma binary_frame:
  "callId (snd (binary w b s)) = callId s"
  "calls (snd (binary w b s)) = calls s"
  "awaiting (snd (binary w b s)) = awaiting s"
  "active (snd (binary w b s)) = active s"
  "connections (snd (binary w b s)) = connections s"
  "sockets (snd (binary w b s)) = sockets s"
  "timers (snd (binary w b s)) = timers s"
  "kind (snd (binary w b s)) = kind s"
  "streamId (snd (binary w b s)) = streamId s"
  "eventId (snd (binary w b s)) = eventId s"
  by (simp_all add: binary_def log_def split: sum.splits option.splits prod.splits)

lemma call_register_alt:
  "call_register now cid target args s =
     (let r = this_send now (Text (CallPacket cid target args))
                (s\<lparr>timers := timers s @ [(now + callTimeout s, CallTimeout cid)],
                   calls := Map_set (calls s) (JNum (of_nat cid)) cid\<rparr>)
      in case fst r of Inl e \<Rightarrow> log (Reject cid e) (snd r) | Inr _ \<Rightarrow> snd r)"
  by (simp add: call_register_def Let_def split: prod.splits sum.splits)

lemma call_register_frame:
  "calls (call_register now cid target args s) = Map_set (calls s) (JNum (of_nat cid)) cid"
  "callId (call_register now cid target args s) = callId s"
  "awaiting (call_register now cid target args s) = awaiting s"
  "streams (call_register now cid target args s) = streams s"
  "streamId (call_register now cid target args s) = streamId s"
  "eventId (call_register now cid target args s) = eventId s"
  "timers (call_register now cid target args s) =
     timers s @ [(now + callTimeout s, CallTimeout cid)]"
  "kind (call_register now cid target args s) = kind s"
  by (simp_all add: call_register_alt Let_def log_def this_send_frame split: sum.splits)

lemma call_connect_frame:
  "fst ` set (calls (call_connect now cid target args s))
     \<subseteq> insert (JNum (of_nat cid)) (fst ` set (calls s))"
  "callId (call_connect now cid target args s) = callId s"
  "fst ` set (awaiting (call_connect now cid target args s))
     \<subseteq> insert cid (fst ` set (awaiting s))"
  "streams (call_connect now cid target args s) = streams s"
  "streamId (call_connect now cid target args s) = streamId s"
  "eventId (call_connect now cid target args s) = eventId s"
  "kind (call_connect now cid target args s) = kind s"
  using keys_Map_set [of "calls s" "JNum (of_nat cid)" cid]
  by (auto simp add: call_connect_def Let_def call_register_frame this_open_frame)

lemma timeout_cb_frame:
  "fst ` set (calls (timeout_cb cid s)) \<subseteq> fst ` set (calls s)"
  "callId (timeout_cb cid s) = callId s"
  "awaiting (timeout_cb cid s) = awaiting s"
  "streams (timeout_cb cid s) = streams s"
  "streamId (timeout_cb cid s) = streamId s"
  "eventId (timeout_cb cid s) = eventId s"
  "kind (timeout_cb cid s) = kind s"
  "active (timeout_cb cid s) = active s"
  "connections (timeout_cb cid s) = connections s"
  "sockets (timeout_cb cid s) = sockets s"
  using keys_Map_delete [of "calls s" "JNum (of_nat cid)"]
  by (auto simp add: timeout_cb_def log_def)

lemma fire_timer_frame:
  "fst ` set (calls (fire_timer now i s)) \<subseteq> fst ` set (calls s)"
  "callId (fire_timer now i s) = callId s"
  "awaiting (fire_timer now i s) = awaiting s"
  "streams (fire_timer now i s) = streams s"
  "streamId (fire_timer now i s) = streamId s"
  "eventId (fire_timer now i s) = eventId s"
  "kind (fire_timer now i s) = kind s"
  using timeout_cb_frame(1) [of cid "s\<lparr>timers := remove_nth i (timers s)\<rparr>" for cid]
  by (auto simp add: fire_timer_def Let_def reconnect_cb_def timeout_cb_frame this_open_frame
      split: timer.splits)


lemma call_frame:
  "callId (snd (call now target args s)) = callId s + 1"
  "fst (call now target args s) = callId s + 1"
  "fst ` set (calls (snd (call now target args s)))
     \<subseteq> insert (JNum (of_nat (callId s + 1))) (fst ` set (calls s))"
  "fst ` set (awaiting (snd (call now target args s)))
     \<subseteq> insert (callId s + 1) (fst ` set (awaiting s))"
  "streams (snd (call now target args s)) = streams s"
  "streamId (snd (call now target args s)) = streamId s"
  "eventId (snd (call now target args s)) = eventId s"
  "kind (snd (call now target args s)) = kind s"
  using call_connect_frame(1,3) [of now "callId s + 1" target args "s\<lparr>callId := callId s + 1\<rparr>"]
  by (auto simp add: call_def Let_def call_connect_frame)

lemma dispatch_frame:
  "kind (snd (dispatch now pkt s)) = kind s"
  "streamId (snd (dispatch now pkt s)) = streamId s"
  "eventId (snd (dispatch now pkt s)) = eventId s"
  "streams (snd (on_event now target args s)) = streams s"
  by (simp_all add: dispatch_def on_callback_def on_event_def on_stream_def log_def Let_def
      call_frame split: sum.splits option.splits)

lemma message_frame:
  "kind (snd (message now d s)) = kind s"
  "streamId (snd (message now d s)) = streamId s"
  "eventId (snd (message now d s)) = eventId s"
  by (simp_all add: message_def dispatch_frame split: inbound.splits)

text \<open>
  A packet either starts a call, through an \<open>emit\<close> that \<open>load\<close> has replaced, or leaves
  the counter of calls, the suspended calls and the life cycle alone and adds no entry to
  \<open>calls\<close>.
\<close>

lemma on_event_shape:
  "(\<exists>t a. snd (on_event now target args s) = snd (call now t a s)) \<or>
   snd (on_event now target args s) = s \<or>
   (\<exists>e. snd (on_event now target args s) = log e s \<and> (\<forall>k. e \<noteq> SocketClose k))"
  by (auto simp add: on_event_def Let_def split: option.splits)

lemma on_callback_same:
  "callId (snd (on_callback pkt c a s)) = callId s \<and>
   awaiting (snd (on_callback pkt c a s)) = awaiting s \<and>
   set (calls (snd (on_callback pkt c a s))) \<subseteq> set (calls s) \<and>
   lifecycle (snd (on_callback pkt c a s)) = lifecycle s \<and>
   socket_closes (snd (on_callback pkt c a s)) = socket_closes s"
  using set_Map_delete [of "calls s" c]
  by (simp add: on_callback_def Let_def log_def lifecycle_def socket_closes_def
      split: option.splits)

lemma on_stream_same:
  "callId (snd (on_stream pkt s)) = callId s \<and>
   awaiting (snd (on_stream pkt s)) = awaiting s \<and>
   set (calls (snd (on_stream pkt s))) \<subseteq> set (calls s) \<and>
   lifecycle (snd (on_stream pkt s)) = lifecycle s \<and>
   socket_closes (snd (on_stream pkt s)) = socket_closes s"
  by (simp add: on_stream_def Let_def log_def lifecycle_def socket_closes_def
      split: option.splits)

lemma dispatch_shape:
  "(\<exists>t a. snd (dispatch now pkt s) = snd (call now t a s)) \<or>
   (callId (snd (dispatch now pkt s)) = callId s \<and>
    awaiting (snd (dispatch now pkt s)) = awaiting s \<and>
    set (calls (snd (dispatch now pkt s))) \<subseteq> set (calls s) \<and>
    lifecycle (snd (dispatch now pkt s)) = lifecycle s \<and>
    socket_closes (snd (dispatch now pkt s)) = socket_closes s)"
proof -
  have ev: "(\<exists>t a. snd (on_event now target args s) = snd (call now t a s)) \<or>
      (callId (snd (on_event now target args s)) = callId s \<and>
       awaiting (snd (on_event now target args s)) = awaiting s \<and>
       set (calls (snd (on_event now target args s))) \<subseteq> set (calls s) \<and>
       lifecycle (snd (on_event now target args s)) = lifecycle s \<and>
       socket_closes (snd (on_event now target args s)) = socket_closes s)" for target args
    using on_event_shape [of now target args s]
    by (auto simp add: log_def lifecycle_def socket_closes_def split: effect.splits)
  show ?thesis
    using ev on_callback_same [of pkt _ _ s] on_stream_same [of pkt s]
    by (simp add: dispatch_def Let_def split: sum.splits)
qed

lemma message_shape:
  "(\<exists>t a. snd (message now d s) = snd (call now t a (s\<lparr>lastActivity := now\<rparr>))) \<or>
   (callId (snd (message now d s)) = callId s \<and>
    awaiting (snd (message now d s)) = awaiting s \<and>
    set (calls (snd (message now d s))) \<subseteq> set (calls s) \<and>
    lifecycle (snd (message now d s)) = lifecycle s \<and>
    socket_closes (snd (message now d s)) = socket_closes s)"
proof (cases d)
  case (Parsed pkt)
  with dispatch_shape [of now pkt "s\<lparr>lastActivity := now\<rparr>"] show ?thesis
    by (simp add: message_def lifecycle_def socket_closes_def)
qed (simp_all add: message_def lifecycle_def socket_closes_def)

lemma call_resume_frame:
  "callId (call_resume now i s) = callId s"
  "streams (call_resume now i s) = streams s"
  "streamId (call_resume now i s) = streamId s"
  "eventId (call_resume now i s) = eventId s"
  "kind (call_resume now i s) = kind s"
  by (simp_all add: call_resume_def Let_def call_connect_frame call_register_frame
      split: prod.splits suspended.splits)


lemma snd_new_MetaWritable:
  "snd (new_MetaWritable send sid name sz t) = snd (send (Text (StreamInit sid name sz)) t)"
  by (simp add: new_MetaWritable_def split: prod.splits sum.splits)

lemma createStream_frame:
  "calls (snd (createStream now name sz s)) = calls s"
  "callId (snd (createStream now name sz s)) = callId s"
  "awaiting (snd (createStream now name sz s)) = awaiting s"
  "streams (snd (createStream now name sz s)) = streams s"
  "streamId (snd (createStream now name sz s)) = streamId s + 1"
  "eventId (snd (createStream now name sz s)) = eventId s"
  "kind (snd (createStream now name sz s)) = kind s"
  by (simp_all add: createStream_def snd_new_MetaWritable Let_def this_send_frame)

lemma forward_event_frame:
  "calls (snd (forward_event now iname ename d s)) = calls s"
  "callId (snd (forward_event now iname ename d s)) = callId s"
  "awaiting (snd (forward_event now iname ename d s)) = awaiting s"
  "streams (snd (forward_event now iname ename d s)) = streams s"
  "streamId (snd (forward_event now iname ename d s)) = streamId s"
  "eventId (snd (forward_event now iname ename d s)) = eventId s + 1"
  "kind (snd (forward_event now iname ename d s)) = kind s"
  by (simp_all add: forward_event_def Let_def this_send_frame)

lemma load_interface_frame:
  "streams (load_interface now iname ms s) = streams s"
  "streamId (load_interface now iname ms s) = streamId s"
  "eventId (load_interface now iname ms s) = eventId s"
  "kind (load_interface now iname ms s) = kind s"
  by (simp_all add: load_interface_def Let_def call_frame)

section \<open>The example connections\<close>

lemma ws0_eq:
  "ws0 = \<lparr>kind = WebsocketTransport, url = ''ws://host'', socket = Some 0, api = [],
     callId = 0, calls = [], streams = [], streamId = 0, eventId = 0,
     active = True, connected' = False, opening = Some 0, lastActivity = 0,
     callTimeout = 50, pingInterval = 60000, reconnectTimeout = 2000,
     connections = True, timers = [], intervals = 1, sockets = 1,
     awaiting = [], trace = [NewWebSocket 0]\<rparr>"
  by (simp add: ws0_def new_Metacom_def Metacom_fields_def this_open_def ws_open_def
      log_def opts0_def or_default_def CALL_TIMEOUT_def PING_INTERVAL_def
      RECONNECT_TIMEOUT_def)

lemma ws1_eq:
  "ws1 = \<lparr>kind = WebsocketTransport, url = ''ws://host'', socket = Some 0, api = [],
     callId = 0, calls = [], streams = [], streamId = 0, eventId = 0,
     active = True, connected' = True, opening = None, lastActivity = 0,
     callTimeout = 50, pingInterval = 60000, reconnectTimeout = 2000,
     connections = True, timers = [], intervals = 1, sockets = 1,
     awaiting = [], trace = [NewWebSocket 0, EmitOpen, OpeningResolved 0]\<rparr>"
  by (simp add: ws1_def ws0_eq step_def on_open_def log_def)


lemma inbound1_eq:
  "inbound1 = ws1\<lparr>lastActivity := 1,
      streams := [(JNum 1, new_MetaReadable (JNum 1) ''f'' 3)]\<rparr>"
  by (simp add: inbound1_def message_def dispatch_def Object_keys_def get_prop_def nth_opt_def
      prop_key_def on_stream_def stream_init_def Let_def Map_get_def Map_set_def Map_has_def
      ws1_eq)

lemma http0_eq:
  "http0 = \<lparr>kind = HttpTransport, url = ''http://host'', socket = None, api = [],
     callId = 0, calls = [], streams = [], streamId = 0, eventId = 0,
     active = True, connected' = True, opening = None, lastActivity = 0,
     callTimeout = 50, pingInterval = 60000, reconnectTimeout = 2000,
     connections = False, timers = [], intervals = 0, sockets = 0,
     awaiting = [], trace = [EmitOpen]\<rparr>"
  by (simp add: http0_def new_Metacom_def Metacom_fields_def this_open_def http_open_def
      log_def opts0_def or_default_def CALL_TIMEOUT_def PING_INTERVAL_def
      RECONNECT_TIMEOUT_def)


section \<open>Packets by their first key\<close>

lemma callback_packet_keys:
  "Object_keys (JObj ((name, v) # rest)) = Inr (name # map fst rest)"
  "get_prop (JObj ((name, v) # rest)) name = v"
  by (simp_all add: Object_keys_def get_prop_def)

lemma stream_packet_keys:
  "Object_keys (JObj ((''stream'', sid) # rest)) = Inr (''stream'' # map fst rest)"
  "get_prop (JObj ((''stream'', sid) # rest)) ''stream'' = sid"
  by (simp_all add: Object_keys_def get_prop_def)

lemma message_stream:
  assumes "pkt = JObj ((''stream'', sid) # rest)" and "truthy sid"
  shows "message now (Parsed pkt) s = on_stream pkt (s\<lparr>lastActivity := now\<rparr>)"
  using assms
  by (simp add: message_def dispatch_def stream_packet_keys nth_opt_def prop_key_def Let_def)

lemma falsy_dropped:
  assumes "\<not> truthy v"
  shows "message now (Parsed (JObj ((name, v) # rest))) s = (Inr (), s\<lparr>lastActivity := now\<rparr>)"
  using assms
  by (simp add: message_def dispatch_def callback_packet_keys nth_opt_def prop_key_def Let_def)

lemma empty_object_dropped:
  "message now (Parsed (JObj [])) s = (Inr (), s\<lparr>lastActivity := now\<rparr>)"
  by (simp add: message_def dispatch_def Object_keys_def get_prop_def nth_opt_def prop_key_def)


section \<open>The timeout of a call\<close>































section \<open>Reconnection and close\<close>

lemma step_inactive:
  assumes "kind s = WebsocketTransport" and "socket s = None"
    and "\<not> active s" and "\<not> connections s"
  shows "kind (step w ev s) = WebsocketTransport \<and> socket (step w ev s) = None \<and>
         \<not> active (step w ev s) \<and> \<not> connections (step w ev s) \<and>
         sockets (step w ev s) = sockets s"
  using assms
  by (cases ev)
    (simp_all add: step_def delivers_text_def delivers_binary_def on_open_def on_close_def
      on_error_def log_def Let_def fire_timer_def timeout_cb_def reconnect_cb_def ping_cb_def
      on_online_def split: timer.splits)

lemma happen_inactive:
  assumes "kind s = WebsocketTransport" and "socket s = None"
    and "\<not> active s" and "\<not> connections s"
  shows "\<not> active (run w (map Happens evs) s) \<and> \<not> connections (run w (map Happens evs) s) \<and>
         sockets (run w (map Happens evs) s) = sockets s"
  using assms
proof (induction evs arbitrary: s)
  case Nil
  then show ?case by simp
next
  case (Cons ev evs)
  from step_inactive [OF Cons.prems, of w ev]
  have i: "kind (step w ev s) = WebsocketTransport" "socket (step w ev s) = None"
    "\<not> active (step w ev s)" "\<not> connections (step w ev s)"
    and k: "sockets (step w ev s) = sockets s"
    by simp_all
  from Cons.IH [OF i] k show ?case
    by simp
qed

lemma ws_close_inactive:
  "\<not> active (ws_close s)" "\<not> connections (ws_close s)" "sockets (ws_close s) = sockets s"
  "timers (ws_close s) = timers s" "reconnectTimeout (ws_close s) = reconnectTimeout s"
  "socket (ws_close s) = None" "kind (ws_close s) = kind s"
  by (simp_all add: ws_close_def log_def Let_def split: option.splits)

lemma on_close_fields:
  "timers (on_close now s) = timers s @ [(now + reconnectTimeout s, Reconnect)]"
  "sockets (on_close now s) = sockets s"
  "trace (on_close now s) = trace s @ [EmitClose]"
  "active (on_close now s) = active s"
  "opening (on_close now s) = None"
  "connected' (on_close now s) = False"
  "kind (on_close now s) = kind s"
  by (simp_all add: on_close_def log_def Let_def)

lemma reconnect_timer_fires:
  assumes "now + reconnectTimeout s \<le> t"
  shows "fire_timer t (length (timers s)) (on_close now s)
           = reconnect_cb ((on_close now s)\<lparr>timers := timers s\<rparr>)"
  using assms by (simp add: fire_timer_def on_close_fields remove_nth_last)

text \<open>
  C3. Reconnection and explicit close, for a socket connection \<open>s\<close>. The close listener
  arms exactly one timeout, due \<open>reconnectTimeout\<close> after the close, and constructs no
  socket. Before it is due the timeout does not fire. When it fires and the connection is
  active, \<open>open()\<close> runs once: exactly one socket is constructed, its connect is in
  flight, and the timeout is gone. \<open>close()\<close> leaves the connection inactive and out of
  \<open>connections\<close>; the timeout of a close event after it fires without effect, and
  whatever happens afterwards (messages, socket events, timeouts, ping intervals, the
  window coming online), no socket is constructed and the connection stays inactive and
  out of \<open>connections\<close>.
\<close>

theorem reconnect_unless_closed:
  assumes "kind s = WebsocketTransport"
  shows "timers (on_close now s) = timers s @ [(now + reconnectTimeout s, Reconnect)] \<and>
         sockets (on_close now s) = sockets s \<and>
         (t < now + reconnectTimeout s \<longrightarrow>
            fire_timer t (length (timers s)) (on_close now s) = on_close now s) \<and>
         (active s \<and> now + reconnectTimeout s \<le> t \<longrightarrow>
            sockets (fire_timer t (length (timers s)) (on_close now s)) = sockets s + 1 \<and>
            opening (fire_timer t (length (timers s)) (on_close now s)) = Some (sockets s) \<and>
            timers (fire_timer t (length (timers s)) (on_close now s)) = timers s \<and>
            trace (fire_timer t (length (timers s)) (on_close now s))
              = trace s @ [EmitClose, NewWebSocket (sockets s)]) \<and>
         \<not> active (this_close s) \<and> \<not> connections (this_close s) \<and>
         (now + reconnectTimeout s \<le> t \<longrightarrow>
            fire_timer t (length (timers s)) (on_close now (this_close s))
              = (on_close now (this_close s))\<lparr>timers := timers s\<rparr>) \<and>
         (\<forall>w evs.
            sockets (run w (map Happens evs) (this_close s)) = sockets s \<and>
            \<not> active (run w (map Happens evs) (this_close s)) \<and>
            \<not> connections (run w (map Happens evs) (this_close s)))"
proof -
  have c: "this_close s = ws_close s"
    using assms by (simp add: this_close_def)
  have early: "t < now + reconnectTimeout s \<Longrightarrow>
      fire_timer t (length (timers s)) (on_close now s) = on_close now s"
    by (simp add: fire_timer_def on_close_fields)
  have due: "active s \<Longrightarrow> now + reconnectTimeout s \<le> t \<Longrightarrow>
      fire_timer t (length (timers s)) (on_close now s)
        = snd (ws_open ((on_close now s)\<lparr>timers := timers s\<rparr>))"
    using assms by (simp add: reconnect_timer_fires reconnect_cb_def on_close_fields this_open_def)
  have opened: "active s \<Longrightarrow> now + reconnectTimeout s \<le> t \<Longrightarrow>
      sockets (fire_timer t (length (timers s)) (on_close now s)) = sockets s + 1 \<and>
      opening (fire_timer t (length (timers s)) (on_close now s)) = Some (sockets s) \<and>
      timers (fire_timer t (length (timers s)) (on_close now s)) = timers s \<and>
      trace (fire_timer t (length (timers s)) (on_close now s))
        = trace s @ [EmitClose, NewWebSocket (sockets s)]"
    by (simp add: due) (simp add: ws_open_def on_close_def log_def Let_def)
  have closed: "now + reconnectTimeout s \<le> t \<Longrightarrow>
      fire_timer t (length (timers s)) (on_close now (this_close s))
        = (on_close now (this_close s))\<lparr>timers := timers s\<rparr>"
    using reconnect_timer_fires [of now "ws_close s" t]
    by (simp add: c ws_close_inactive reconnect_cb_def on_close_fields)
  have ever: "sockets (run w (map Happens evs) (this_close s)) = sockets s \<and>
            \<not> active (run w (map Happens evs) (this_close s)) \<and>
            \<not> connections (run w (map Happens evs) (this_close s))" for w evs
    using happen_inactive [of "ws_close s" w evs] assms
    by (simp add: c ws_close_inactive)
  show ?thesis
    using early opened closed ever
    by (simp add: on_close_fields c ws_close_inactive)
qed

theorem reconnect_unless_closed_witness:
  "kind ws1 = WebsocketTransport \<and> active ws1 \<and>
   timers (on_close 100 ws1) = [(2100, Reconnect)] \<and>
   sockets (on_close 100 ws1) = 1 \<and>
   fire_timer 2099 0 (on_close 100 ws1) = on_close 100 ws1 \<and>
   sockets (fire_timer 2100 0 (on_close 100 ws1)) = 2 \<and>
   opening (fire_timer 2100 0 (on_close 100 ws1)) = Some 1 \<and>
   timers (fire_timer 2100 0 (on_close 100 ws1)) = [] \<and>
   \<not> active (this_close ws1) \<and> \<not> connections (this_close ws1) \<and>
   fire_timer 2100 0 (on_close 100 (this_close ws1))
     = (on_close 100 (this_close ws1))\<lparr>timers := []\<rparr> \<and>
   sockets (run 4 (map Happens [SocketClosed 100, TimerFired 2100 0, Online, PingTick 70000])
              (this_close ws1)) = 1"
proof -
  have k: "kind ws1 = WebsocketTransport" and a: "active ws1"
    and f: "timers ws1 = []" "reconnectTimeout ws1 = 2000" "sockets ws1 = 1"
    by (simp_all add: ws1_eq)
  note T = reconnect_unless_closed [OF k]
  have e: "fire_timer 2099 0 (on_close 100 ws1) = on_close 100 ws1"
    using T [of 100 2099] by (simp add: f)
  have d: "sockets (fire_timer 2100 0 (on_close 100 ws1)) = 2 \<and>
      opening (fire_timer 2100 0 (on_close 100 ws1)) = Some 1 \<and>
      timers (fire_timer 2100 0 (on_close 100 ws1)) = []"
    using T [of 100 2100] a by (simp add: f)
  have c: "fire_timer 2100 0 (on_close 100 (this_close ws1))
     = (on_close 100 (this_close ws1))\<lparr>timers := []\<rparr>"
    using T [of 100 2100] by (simp add: f)
  have r: "sockets (run 4 (map Happens [SocketClosed 100, TimerFired 2100 0, Online, PingTick 70000])
              (this_close ws1)) = 1"
    using T [of 100 2100] f(3) by metis
  from T [of 100 2100] k a e d c r show ?thesis
    by (simp add: f)
qed

section \<open>Ids\<close>

lemma counters_message:
  "callId s \<le> callId (snd (message now d s))"
  using message_shape [of now d s] by (auto simp add: call_frame)

lemma counters_step:
  "callId s \<le> callId (step w ev s)" "eventId (step w ev s) = eventId s"
  by (cases ev;
      simp add: step_def counters_message message_frame binary_frame on_open_def on_close_def
        on_error_def log_def Let_def fire_timer_frame ping_cb_def on_online_def
        this_send_frame this_open_frame)+

lemma counters_perform:
  "callId s \<le> callId (perform c s)" "eventId s \<le> eventId (perform c s)"
  by (cases c;
      simp add: perform_def this_open_frame this_close_frame call_frame call_resume_frame
        createStream_frame load_interface_def load_interface_frame forward_event_frame
        Let_def)+

lemma callId_run: "callId s \<le> callId (run w as s)"
proof (induction w as s rule: run.induct)
  case (2 w ev as s)
  then show ?case
    using counters_step(1) [of s w ev] by simp
next
  case (3 w c as s)
  then show ?case
    using counters_perform(1) [of s c] by simp
qed simp

lemma eventId_run: "eventId s \<le> eventId (run w as s)"
proof (induction w as s rule: run.induct)
  case (3 w c as s)
  then show ?case
    using counters_perform(2) [of s c] by simp
qed (simp_all add: counters_step)

text \<open>
  C4, amended. A new connection has its call and event counters at zero; a call takes
  the counter plus one as its id and an event forwarded to the server is sent with the
  counter plus one, which becomes the counter; the counters never decrease. A packet whose
  first key has a falsy value (\<open>0\<close>, \<open>null\<close>, \<open>false\<close>, the empty string), or that has
  no key at all, is dropped before any lookup: nothing is thrown, no continuation is
  invoked, and nothing changes but \<open>lastActivity\<close>, which \<open>message\<close> sets before it
  parses the text.
\<close>

theorem ids_increase_and_falsy_id_dropped:
  "callId (new_Metacom k u opts t0) = 0 \<and> eventId (new_Metacom k u opts t0) = 0 \<and>
   fst (call now target args s) = callId s + 1 \<and>
   callId (snd (call now target args s)) = callId s + 1 \<and>
   forward_event now iname ename d s
     = this_send now (Text (EventPacket (eventId s + 1) (iname @ ''/'' @ ename) d))
         (s\<lparr>eventId := eventId s + 1\<rparr>) \<and>
   eventId (snd (forward_event now iname ename d s)) = eventId s + 1 \<and>
   callId s \<le> callId (run w as s) \<and> eventId s \<le> eventId (run w as s) \<and>
   (\<not> truthy v \<longrightarrow>
      message now (Parsed (JObj ((name, v) # rest))) s = (Inr (), s\<lparr>lastActivity := now\<rparr>)) \<and>
   message now (Parsed (JObj [])) s = (Inr (), s\<lparr>lastActivity := now\<rparr>)"
  by (simp add: new_Metacom_def this_open_frame Metacom_fields_def call_frame
      forward_event_frame callId_run eventId_run falsy_dropped empty_object_dropped)
    (simp add: forward_event_def Let_def)

theorem falsy_id_state_counterexample:
  "snd (message 5 (Parsed (JObj [(''callback'', JNum 0), (''a/b'', JNull)])) ws1) \<noteq> ws1"
proof
  assume "snd (message 5 (Parsed (JObj [(''callback'', JNum 0), (''a/b'', JNull)])) ws1) = ws1"
  then have "lastActivity (snd (message 5 (Parsed (JObj [(''callback'', JNum 0), (''a/b'', JNull)])) ws1))
      = lastActivity ws1"
    by simp
  then show False
    by (simp add: falsy_dropped) (simp add: ws1_eq)
qed

theorem ids_increase_and_falsy_id_dropped_witness:
  "callId (new_Metacom WebsocketTransport ''ws://host'' opts0 0) = 0 \<and>
   fst (call 10 ''a/b'' JNull ws1) = 1 \<and>
   fst (call 11 ''a/c'' JNull (snd (call 10 ''a/b'' JNull ws1))) = 2 \<and>
   \<not> truthy (JNum 0) \<and>
   message 5 (Parsed (JObj [(''callback'', JNum 0), (''a/b'', JNull)])) called1
     = (Inr (), called1\<lparr>lastActivity := 5\<rparr>) \<and>
   \<not> truthy JNull \<and>
   message 5 (Parsed (JObj [(''stream'', JNull), (''status'', JStr ''end'')])) called1
     = (Inr (), called1\<lparr>lastActivity := 5\<rparr>)"
proof -
  note T = ids_increase_and_falsy_id_dropped
  have a: "callId (new_Metacom WebsocketTransport ''ws://host'' opts0 0) = 0"
    using T [where k = WebsocketTransport and u = "''ws://host''" and opts = opts0 and ?t0.0 = 0]
    by simp
  have b: "fst (call 10 ''a/b'' JNull ws1) = 1"
    using T [where now = 10 and target = "''a/b''" and args = JNull and s = ws1]
    by (simp add: ws1_eq)
  have c: "fst (call 11 ''a/c'' JNull (snd (call 10 ''a/b'' JNull ws1))) = 2"
    using T [where now = 11 and target = "''a/c''" and args = JNull
          and s = "snd (call 10 ''a/b'' JNull ws1)"]
      T [where now = 10 and target = "''a/b''" and args = JNull and s = ws1]
    by (simp add: ws1_eq)
  have f: "\<not> truthy (JNum 0)" "\<not> truthy JNull"
    by simp_all
  have d: "message 5 (Parsed (JObj [(''callback'', JNum 0), (''a/b'', JNull)])) called1
     = (Inr (), called1\<lparr>lastActivity := 5\<rparr>)"
    using f(1)
      T [where now = 5 and s = called1 and v = "JNum 0" and name = "''callback''"
          and rest = "[(''a/b'', JNull)]"]
    by blast
  have e: "message 5 (Parsed (JObj [(''stream'', JNull), (''status'', JStr ''end'')])) called1
     = (Inr (), called1\<lparr>lastActivity := 5\<rparr>)"
    using f(2)
      T [where now = 5 and s = called1 and v = JNull and name = "''stream''"
          and rest = "[(''status'', JStr ''end'')]"]
    by blast
  from a b c d e f show ?thesis
    by simp
qed

section \<open>Opening twice\<close>

text \<open>
  C5. \<open>open()\<close> of the socket transport while a connect is in flight returns the promise
  of that connect and changes nothing; while connected, and no connect in flight, it
  returns a resolved promise and changes nothing: no socket is constructed. (\<open>open\<close> is
  an \<open>async\<close> function: \<open>InFlight p\<close> is a promise that settles as the promise
  \<open>opening\<close> of the socket \<open>p\<close> does.) \<open>open()\<close> of the HTTP transport resolves at once and
  constructs no socket.
\<close>

theorem open_idempotent:
  "(opening s = Some p \<longrightarrow> ws_open s = (InFlight p, s)) \<and>
   (opening s = None \<and> connected' s \<longrightarrow> ws_open s = (Resolved, s)) \<and>
   fst (http_open s) = Resolved \<and> sockets (snd (http_open s)) = sockets s"
  by (simp add: ws_open_def http_open_def log_def)

theorem open_idempotent_witness:
  "opening ws0 = Some 0 \<and> ws_open ws0 = (InFlight 0, ws0) \<and> sockets ws0 = 1 \<and>
   opening ws1 = None \<and> connected' ws1 \<and> ws_open ws1 = (Resolved, ws1) \<and> sockets ws1 = 1"
proof -
  have k: "opening ws0 = Some 0" "sockets ws0 = 1" "opening ws1 = None" "connected' ws1"
    "sockets ws1 = 1"
    by (simp_all add: ws0_eq ws1_eq)
  with open_idempotent [of ws0 0] open_idempotent [of ws1] show ?thesis
    by simp
qed

section \<open>Writing to a stream\<close>

text \<open>
  C6. \<open>write(chunk)\<close> on a writable that is not finalized, whose id fits the id field,
  hands exactly one unit to the transport: with the transport of the tests the write
  buffer grows by one binary frame, this frame decodes to the id of the stream and the chunk
  unchanged, and \<open>write\<close> returns \<open>true\<close>. With any transport whose \<open>send\<close> returns,
  \<open>write\<close> is that one \<open>send\<close> of the frame and returns \<open>true\<close>.
\<close>

theorem writable_write:
  assumes "\<not> w_finalized wr" and "valid_id w (w_streamId wr)"
  shows "Writable_write w buffer_send wr chunk writeBuffer
           = (Inr True, writeBuffer @ [Binary (Chunk_encode w (w_streamId wr) chunk)]) \<and>
         Chunk_decode w (Chunk_encode w (w_streamId wr) chunk) = Inr (w_streamId wr, chunk) \<and>
         (\<forall>send t.
            fst (send (Binary (Chunk_encode w (w_streamId wr) chunk)) t) = Inr () \<longrightarrow>
            Writable_write w send wr chunk t
              = (Inr True, snd (send (Binary (Chunk_encode w (w_streamId wr) chunk)) t)))"
  using assms
  by (auto simp add: Writable_write_def buffer_send_def valid_id_def decode_encode
      split: prod.splits sum.splits)

theorem writable_write_witness:
  "new_MetaWritable buffer_send 5 ''file.txt'' 10 []
     = (Inr \<lparr>w_streamId = 5, w_name = ''file.txt'', w_size = 10, w_finalized = False\<rparr>,
        [Text (StreamInit 5 ''file.txt'' 10)]) \<and>
   valid_id 4 5 \<and>
   Writable_write 4 buffer_send
       \<lparr>w_streamId = 5, w_name = ''file.txt'', w_size = 10, w_finalized = False\<rparr>
       [0, 1, 2, 3] [Text (StreamInit 5 ''file.txt'' 10)]
     = (Inr True,
        [Text (StreamInit 5 ''file.txt'' 10), Binary (Chunk_encode 4 5 [0, 1, 2, 3])]) \<and>
   Chunk_decode 4 (Chunk_encode 4 5 [0, 1, 2, 3]) = Inr (5, [0, 1, 2, 3])"
proof -
  let ?wr = "\<lparr>w_streamId = 5, w_name = ''file.txt'', w_size = 10, w_finalized = False\<rparr>"
  have n: "new_MetaWritable buffer_send 5 ''file.txt'' 10 []
     = (Inr ?wr, [Text (StreamInit 5 ''file.txt'' 10)])"
    by (simp add: new_MetaWritable_def buffer_send_def)
  have f: "\<not> w_finalized ?wr" and v: "valid_id 4 (w_streamId ?wr)"
    by (simp_all add: valid_id_def)
  have s: "w_streamId ?wr = 5"
    by simp
  from writable_write [OF f v, of "[0, 1, 2, 3]" "[Text (StreamInit 5 ''file.txt'' 10)]"]
  have a: "Writable_write 4 buffer_send ?wr [0, 1, 2, 3] [Text (StreamInit 5 ''file.txt'' 10)]
     = (Inr True,
        [Text (StreamInit 5 ''file.txt'' 10)] @ [Binary (Chunk_encode 4 5 [0, 1, 2, 3])])"
    and b: "Chunk_decode 4 (Chunk_encode 4 5 [0, 1, 2, 3]) = Inr (5, [0, 1, 2, 3])"
    unfolding s by blast+
  from a b n v [unfolded s] show ?thesis
    by simp
qed

section \<open>Stream packets\<close>

text \<open>
  C7. The cases of a stream packet: a packet whose first key is \<open>stream\<close>, with a truthy
  id \<open>sid\<close>. It carries name and size when \<open>stream_init\<close> holds: the name is a non-empty
  string and the size a safe integer. Such a packet for an id without a stream registers a
  new readable stream under the id, after the entries there are; for an id with a stream
  it is dropped with the conflict logged, and \<open>streams\<close> is unchanged. Another packet for
  an id without a stream is dropped with \<open>not initialized\<close> logged. For an id with a
  stream, status \<open>end\<close> closes the stream and removes its entry, status \<open>terminate\<close>
  terminates the stream and removes its entry, and any other packet is dropped with a
  structure error logged. In no case is anything thrown.
\<close>

theorem stream_packet_cases:
  assumes "pkt = JObj ((''stream'', sid) # rest)" and "truthy sid"
  shows
    "(stream_init pkt \<and> Map_get (streams s) sid = None \<longrightarrow>
        message now (Parsed pkt) s =
          (Inr (),
           s\<lparr>lastActivity := now,
              streams := streams s @
                [(sid, new_MetaReadable sid (str_of (get_prop pkt ''name''))
                         (num_of (get_prop pkt ''size'')))]\<rparr>)) \<and>
     (stream_init pkt \<and> Map_get (streams s) sid = Some rd \<longrightarrow>
        message now (Parsed pkt) s =
          (Inr (),
           log (ConsoleError (StreamAlreadyInitialized (str_of (get_prop pkt ''name''))))
             (s\<lparr>lastActivity := now\<rparr>))) \<and>
     (\<not> stream_init pkt \<and> Map_get (streams s) sid = None \<longrightarrow>
        message now (Parsed pkt) s =
          (Inr (), log (ConsoleError (StreamNotInitialized sid)) (s\<lparr>lastActivity := now\<rparr>))) \<and>
     (\<not> stream_init pkt \<and> Map_get (streams s) sid = Some rd \<and>
      get_prop pkt ''status'' = JStr ''end'' \<longrightarrow>
        message now (Parsed pkt) s =
          (Inr (),
           (log (ReadableClosed (Readable_close rd)) (s\<lparr>lastActivity := now\<rparr>))
             \<lparr>streams := Map_delete (streams s) sid\<rparr>) \<and>
        Map_get (Map_delete (streams s) sid) sid = None \<and>
        (r_state rd = ACTIVE \<longrightarrow> r_state (Readable_close rd) = ENDED)) \<and>
     (\<not> stream_init pkt \<and> Map_get (streams s) sid = Some rd \<and>
      get_prop pkt ''status'' = JStr ''terminate'' \<longrightarrow>
        message now (Parsed pkt) s =
          (Inr (),
           (log (ReadableTerminated (Readable_terminate rd)) (s\<lparr>lastActivity := now\<rparr>))
             \<lparr>streams := Map_delete (streams s) sid\<rparr>) \<and>
        Map_get (Map_delete (streams s) sid) sid = None \<and>
        (r_state rd = ACTIVE \<longrightarrow> r_state (Readable_terminate rd) = TERMINATED)) \<and>
     (\<not> stream_init pkt \<and> Map_get (streams s) sid = Some rd \<and>
      get_prop pkt ''status'' \<noteq> JStr ''end'' \<and> get_prop pkt ''status'' \<noteq> JStr ''terminate'' \<longrightarrow>
        message now (Parsed pkt) s =
          (Inr (), log (ConsoleError StreamPacketStructureError) (s\<lparr>lastActivity := now\<rparr>)))"
proof -
  have sid: "get_prop pkt ''stream'' = sid"
    using assms(1) by (simp add: stream_packet_keys)
  show ?thesis
    unfolding message_stream [OF assms]
    by (simp add: on_stream_def sid Let_def Map_get_set_new Map_get_delete log_def
        Readable_close_def Readable_terminate_def)
qed

theorem stream_packet_cases_witness:
  "message 1 (Parsed (JObj [(''stream'', JNum 1), (''name'', JStr ''f''), (''size'', JNum 3)])) ws1
     = (Inr (), ws1\<lparr>lastActivity := 1,
                   streams := [(JNum 1, new_MetaReadable (JNum 1) ''f'' 3)]\<rparr>) \<and>
   message 2 (Parsed (JObj [(''stream'', JNum 1), (''name'', JStr ''f''), (''size'', JNum 3)]))
       inbound1
     = (Inr (), log (ConsoleError (StreamAlreadyInitialized ''f''))
                  (inbound1\<lparr>lastActivity := 2\<rparr>)) \<and>
   message 2 (Parsed (JObj [(''stream'', JNum 7), (''status'', JStr ''end'')])) inbound1
     = (Inr (), log (ConsoleError (StreamNotInitialized (JNum 7)))
                  (inbound1\<lparr>lastActivity := 2\<rparr>)) \<and>
   message 2 (Parsed (JObj [(''stream'', JNum 1), (''status'', JStr ''end'')])) inbound1
     = (Inr (),
        (log (ReadableClosed ((new_MetaReadable (JNum 1) ''f'' 3)\<lparr>r_state := ENDED\<rparr>))
           (inbound1\<lparr>lastActivity := 2\<rparr>))\<lparr>streams := []\<rparr>) \<and>
   message 2 (Parsed (JObj [(''stream'', JNum 1), (''status'', JStr ''terminate'')])) inbound1
     = (Inr (),
        (log (ReadableTerminated ((new_MetaReadable (JNum 1) ''f'' 3)\<lparr>r_state := TERMINATED\<rparr>))
           (inbound1\<lparr>lastActivity := 2\<rparr>))\<lparr>streams := []\<rparr>) \<and>
   message 2 (Parsed (JObj [(''stream'', JNum 1), (''status'', JStr ''pause'')])) inbound1
     = (Inr (), log (ConsoleError StreamPacketStructureError) (inbound1\<lparr>lastActivity := 2\<rparr>))"
proof -
  let ?init = "JObj [(''stream'', JNum 1), (''name'', JStr ''f''), (''size'', JNum 3)]"
  let ?rd = "new_MetaReadable (JNum 1) ''f'' 3"
  have t: "truthy (JNum 1)" "truthy (JNum 7)"
    by simp_all
  have i: "stream_init ?init"
    by (simp add: stream_init_def get_prop_def)
  have n: "\<not> stream_init (JObj [(''stream'', v), (''status'', st)])" for v st
    by (simp add: stream_init_def get_prop_def)
  have g: "Map_get (streams ws1) (JNum 1) = None" "Map_get (streams inbound1) (JNum 1) = Some ?rd"
    "Map_get (streams inbound1) (JNum 7) = None"
    by (simp_all add: ws1_eq inbound1_eq Map_get_def)
  have p: "get_prop ?init ''name'' = JStr ''f''" "get_prop ?init ''size'' = JNum 3"
    "get_prop (JObj [(''stream'', v), (''status'', st)]) ''status'' = st" for v st
    by (simp_all add: get_prop_def)
  have a: "message 1 (Parsed ?init) ws1
     = (Inr (), ws1\<lparr>lastActivity := 1, streams := [(JNum 1, ?rd)]\<rparr>)"
    using
      stream_packet_cases
        [where rest = "[(''name'', JStr ''f''), (''size'', JNum 3)]"
          and s = ws1 and now = 1,
          OF refl t(1)]
      i g(1)
    by (simp add: p) (simp add: ws1_eq)
  have b: "message 2 (Parsed ?init) inbound1
     = (Inr (),
        log (ConsoleError (StreamAlreadyInitialized ''f'')) (inbound1\<lparr>lastActivity := 2\<rparr>))"
    using
      stream_packet_cases
        [where rest = "[(''name'', JStr ''f''), (''size'', JNum 3)]"
          and s = inbound1 and now = 2 and rd = "?rd",
          OF refl t(1)]
      i g(2)
    by (simp add: p)
  have c: "message 2 (Parsed (JObj [(''stream'', JNum 7), (''status'', JStr ''end'')])) inbound1
     = (Inr (),
        log (ConsoleError (StreamNotInitialized (JNum 7))) (inbound1\<lparr>lastActivity := 2\<rparr>))"
    using
      stream_packet_cases
        [where rest = "[(''status'', JStr ''end'')]"
          and s = inbound1 and now = 2,
          OF refl t(2)]
      n g(3)
    by simp
  have d: "message 2 (Parsed (JObj [(''stream'', JNum 1), (''status'', JStr ''end'')])) inbound1
     = (Inr (), (log (ReadableClosed (?rd\<lparr>r_state := ENDED\<rparr>))
           (inbound1\<lparr>lastActivity := 2\<rparr>))\<lparr>streams := []\<rparr>)"
    using
      stream_packet_cases
        [where rest = "[(''status'', JStr ''end'')]"
          and s = inbound1 and now = 2 and rd = "?rd",
          OF refl t(1)]
      n g(2)
    by (simp add: p) (simp add: inbound1_eq Map_delete_def Readable_close_def new_MetaReadable_def)
  have e: "message 2 (Parsed (JObj [(''stream'', JNum 1), (''status'', JStr ''terminate'')])) inbound1
     = (Inr (), (log (ReadableTerminated (?rd\<lparr>r_state := TERMINATED\<rparr>))
           (inbound1\<lparr>lastActivity := 2\<rparr>))\<lparr>streams := []\<rparr>)"
    using
      stream_packet_cases
        [where rest = "[(''status'', JStr ''terminate'')]"
          and s = inbound1 and now = 2 and rd = "?rd",
          OF refl t(1)]
      n g(2)
    by (simp add: p)
      (simp add: inbound1_eq Map_delete_def Readable_terminate_def new_MetaReadable_def)
  have f: "message 2 (Parsed (JObj [(''stream'', JNum 1), (''status'', JStr ''pause'')])) inbound1
     = (Inr (), log (ConsoleError StreamPacketStructureError) (inbound1\<lparr>lastActivity := 2\<rparr>))"
    using
      stream_packet_cases
        [where rest = "[(''status'', JStr ''pause'')]"
          and s = inbound1 and now = 2 and rd = "?rd",
          OF refl t(1)]
      n g(2)
    by (simp add: p)
  from a b c d e f show ?thesis
    by blast
qed

section \<open>Failures of the dispatcher\<close>










section \<open>Sending and the time of the last activity\<close>

text \<open>
  C9, amended. \<open>send\<close> of the HTTP transport sets \<open>lastActivity\<close> to the current time.
  \<open>send\<close> of the socket transport sets it when the connection is connected (also when
  it then throws for want of a socket); when the connection is not connected it returns at
  once and changes nothing.
\<close>

theorem send_lastActivity:
  "(kind s = HttpTransport \<longrightarrow> lastActivity (snd (this_send now u s)) = now) \<and>
   (kind s = WebsocketTransport \<and> connected' s \<longrightarrow>
      lastActivity (snd (this_send now u s)) = now) \<and>
   (kind s = WebsocketTransport \<and> \<not> connected' s \<longrightarrow>
      this_send now u s = (Inr (), s))"
  by (simp add: this_send_def ws_send_def http_send_def log_def Let_def
      split: option.splits)

theorem ws_send_disconnected_counterexample:
  "lastActivity (snd (this_send 5 (Text Ping) ws0)) \<noteq> 5"
  by (simp add: ws0_eq this_send_def ws_send_def)

theorem send_lastActivity_witness:
  "kind http0 = HttpTransport \<and> lastActivity (snd (this_send 7 (Text Ping) http0)) = 7 \<and>
   kind ws1 = WebsocketTransport \<and> connected' ws1 \<and>
   lastActivity (snd (this_send 7 (Text Ping) ws1)) = 7 \<and>
   kind ws0 = WebsocketTransport \<and> \<not> connected' ws0 \<and>
   this_send 7 (Text Ping) ws0 = (Inr (), ws0)"
proof -
  have k: "kind http0 = HttpTransport" "kind ws1 = WebsocketTransport" "connected' ws1"
    "kind ws0 = WebsocketTransport" "\<not> connected' ws0"
    by (simp_all add: http0_eq ws1_eq ws0_eq)
  with send_lastActivity [of http0 7 "Text Ping"] send_lastActivity [of ws1 7 "Text Ping"]
    send_lastActivity [of ws0 7 "Text Ping"]
  show ?thesis by simp
qed

section \<open>Streams created and streams registered\<close>

lemma stream_init_values:
  assumes "stream_init pkt"
  shows "str_of (get_prop pkt ''name'') \<noteq> []"
    and "isSafeInteger (JNum (num_of (get_prop pkt ''size'')))"
proof -
  from assms show "str_of (get_prop pkt ''name'') \<noteq> []"
    by (cases "get_prop pkt ''name''") (simp_all add: stream_init_def)
  from assms show "isSafeInteger (JNum (num_of (get_prop pkt ''size'')))"
    by (cases "get_prop pkt ''size''") (simp_all add: stream_init_def)
qed

lemma on_stream_from_init:
  assumes "list_all from_init (streams s)"
  shows "list_all from_init (streams (snd (on_stream pkt s)))"
proof (cases "stream_init pkt")
  case True
  then have "from_init (get_prop pkt ''stream'',
      new_MetaReadable (get_prop pkt ''stream'') (str_of (get_prop pkt ''name''))
        (num_of (get_prop pkt ''size'')))"
    using stream_init_values [OF True] by (simp add: from_init_def new_MetaReadable_def)
  with assms True show ?thesis
    by (simp add: on_stream_def Let_def log_def list_all_Map_set split: option.splits)
next
  case False
  with assms show ?thesis
    by (simp add: on_stream_def Let_def log_def list_all_Map_delete split: option.splits)
qed

lemma dispatch_from_init:
  assumes "list_all from_init (streams s)"
  shows "list_all from_init (streams (snd (dispatch now pkt s)))"
  using assms on_stream_from_init [OF assms, of pkt]
  by (simp add: dispatch_def on_callback_def dispatch_frame log_def Let_def
      split: sum.splits option.splits)

lemma message_from_init:
  assumes "list_all from_init (streams s)"
  shows "list_all from_init (streams (snd (message now d s)))"
  using assms dispatch_from_init [of "s\<lparr>lastActivity := now\<rparr>" now]
  by (simp add: message_def split: inbound.splits)

lemma push_from_init:
  assumes "from_init (k, rd)" and "Readable_push rd payload = Inr rd'"
  shows "from_init (k, rd')"
  using assms by (auto simp add: from_init_def Readable_push_def split: if_splits)

lemma binary_from_init:
  assumes "list_all from_init (streams s)"
  shows "list_all from_init (streams (snd (binary w b s)))"
proof (cases "Chunk_decode w b")
  case (Inl e)
  with assms show ?thesis by (simp add: binary_def)
next
  case (Inr r)
  obtain sid payload where r: "r = (sid, payload)" by (cases r)
  show ?thesis
  proof (cases "Map_get (streams s) (JNum (of_nat sid))")
    case None
    with assms Inr r show ?thesis by (simp add: binary_def log_def)
  next
    case (Some rd)
    then have "from_init (JNum (of_nat sid), rd)"
      using assms Map_get_in [OF Some] by (simp add: list_all_iff)
    then have "Readable_push rd payload = Inr rd' \<Longrightarrow> from_init (JNum (of_nat sid), rd')" for rd'
      by (rule push_from_init)
    with assms Inr r Some show ?thesis
      by (simp add: binary_def list_all_Map_set split: sum.splits)
  qed
qed

lemma step_streams:
  assumes "list_all from_init (streams s)"
  shows "list_all from_init (streams (step w ev s))"
  using assms
  by (cases ev)
    (simp_all add: step_def message_from_init binary_from_init on_open_def on_close_def
      on_error_def log_def Let_def fire_timer_frame ping_cb_def on_online_def this_send_frame
      this_open_frame)

lemma perform_streams: "streams (perform c s) = streams s"
  by (cases c)
    (simp_all add: perform_def this_open_frame this_close_frame call_frame call_resume_frame
      createStream_frame load_interface_frame forward_event_frame)

lemma run_streams:
  "list_all from_init (streams s) \<Longrightarrow> list_all from_init (streams (run w as s))"
  by (induction w as s rule: run.induct) (simp_all add: step_streams perform_streams)

lemma createStream_id:
  "fst (createStream now name sz s) = Inr wr \<Longrightarrow> w_streamId wr = streamId s + 1"
  by (auto simp add: createStream_def new_MetaWritable_def Let_def split: prod.splits sum.splits)

text \<open>
  C10, amended. \<open>createStream\<close> leaves \<open>streams\<close> as it was, and the writable that it
  returns has the stream counter plus one as its id. When \<open>streams\<close> has an entry under
  that id, \<open>getStream\<close> of the id returns the readable stream of the entry. When it has
  none, \<open>getStream\<close> of the id fails with \<open>not initialized\<close>, and a frame with that id
  (one that fits the id field) is dropped with a warning logged. Every entry of
  \<open>streams\<close>, in every state that a new connection reaches, is a readable stream made
  from a packet that initialised it.
\<close>

theorem createStream_registers_nothing:
  "streams (snd (createStream now name sz s)) = streams s \<and>
   (\<forall>wr. fst (createStream now name sz s) = Inr wr \<longrightarrow> w_streamId wr = streamId s + 1) \<and>
   (Map_get (streams s) (JNum (of_nat (streamId s + 1))) = Some rd \<longrightarrow>
      getStream (snd (createStream now name sz s)) (JNum (of_nat (streamId s + 1))) = Inr rd) \<and>
   (Map_get (streams s) (JNum (of_nat (streamId s + 1))) = None \<longrightarrow>
      getStream (snd (createStream now name sz s)) (JNum (of_nat (streamId s + 1)))
        = Inl (Error (StreamNotInitialized (JNum (of_nat (streamId s + 1))))) \<and>
      (valid_id w (streamId s + 1) \<longrightarrow>
         binary w (Chunk_encode w (streamId s + 1) payload) (snd (createStream now name sz s))
           = (Inr (),
              log (ConsoleWarn (StreamNotInitialized (JNum (of_nat (streamId s + 1)))))
                (snd (createStream now name sz s))))) \<and>
   list_all from_init (streams (run w as (new_Metacom k u opts t0)))"
proof -
  have "list_all from_init (streams (new_Metacom k u opts t0))"
    by (simp add: new_Metacom_def this_open_frame Metacom_fields_def)
  then have "list_all from_init (streams (run w as (new_Metacom k u opts t0)))"
    by (rule run_streams)
  then show ?thesis
    by (simp add: createStream_frame createStream_id getStream_def binary_def valid_id_def
        decode_encode del: of_nat_Suc of_nat_add)
qed

theorem createStream_id_in_use_counterexample:
  "map_sum id w_streamId (fst (createStream 2 ''g'' 4 inbound1)) = Inr 1 \<and>
   getStream (snd (createStream 2 ''g'' 4 inbound1)) (JNum 1)
     = Inr (new_MetaReadable (JNum 1) ''f'' 3)"
  by (simp add: createStream_def new_MetaWritable_def this_send_def ws_send_def log_def
      Let_def getStream_def Map_get_def inbound1_eq ws1_eq)

theorem createStream_registers_nothing_witness:
  "streams (snd (createStream 2 ''g'' 4 ws1)) = [] \<and>
   map_sum id w_streamId (fst (createStream 2 ''g'' 4 ws1)) = Inr 1 \<and>
   Map_get (streams ws1) (JNum 1) = None \<and>
   getStream (snd (createStream 2 ''g'' 4 ws1)) (JNum 1)
     = Inl (Error (StreamNotInitialized (JNum 1))) \<and>
   valid_id 4 1 \<and>
   binary 4 (Chunk_encode 4 1 [9]) (snd (createStream 2 ''g'' 4 ws1))
     = (Inr (), log (ConsoleWarn (StreamNotInitialized (JNum 1)))
                  (snd (createStream 2 ''g'' 4 ws1)))"
proof -
  have f: "streamId ws1 = 0" "streams ws1 = []"
    by (simp_all add: ws1_eq)
  have g: "Map_get (streams ws1) (JNum (of_nat (streamId ws1 + 1))) = None"
    by (simp add: f Map_get_def)
  have v: "valid_id 4 (streamId ws1 + 1)"
    by (simp add: f valid_id_def)
  have c: "fst (createStream 2 ''g'' 4 ws1)
      = Inr \<lparr>w_streamId = 1, w_name = ''g'', w_size = 4, w_finalized = False\<rparr>"
    by (simp add: createStream_def new_MetaWritable_def this_send_def ws_send_def log_def
        Let_def ws1_eq)
  from createStream_registers_nothing
         [where now = 2 and name = "''g''" and sz = 4 and s = ws1 and w = 4 and payload = "[9]"]
       g v c
  show ?thesis
    by (simp add: f)
qed

end
